theory Spec2Isabelle
  imports Complex_Main "HOL-Library.AList" "HOL-Library.Multiset"
begin

section \<open>Strings\<close>

text \<open>
  JavaScript strings are modelled as \<open>string\<close>; the model covers ASCII code units:
  \<open>String.prototype.trim\<close> strips the ASCII white space and line terminators
  (tab, line feed, vertical tab, form feed, carriage return, space), and
  \<open>toLowerCase\<close> maps \<open>A\<close>..\<open>Z\<close> to \<open>a\<close>..\<open>z\<close> and leaves every other
  character alone.
\<close>

definition isWhiteSpace :: "char \<Rightarrow> bool" where
  "isWhiteSpace c = (of_char c \<in> {9, 10, 11, 12, 13, 32 :: nat})"

definition trim :: "string \<Rightarrow> string" where
  "trim s = rev (dropWhile isWhiteSpace (rev (dropWhile isWhiteSpace s)))"

definition toLowerCase :: "string \<Rightarrow> string" where
  "toLowerCase s =
     map (\<lambda>c. let n = (of_char c :: nat) in if 65 \<le> n \<and> n \<le> 90 then char_of (n + 32) else c) s"

definition toUpperCase :: "string \<Rightarrow> string" where
  "toUpperCase s =
     map (\<lambda>c. let n = (of_char c :: nat) in if 97 \<le> n \<and> n \<le> 122 then char_of (n - 32) else c) s"

definition startsWith :: "string \<Rightarrow> string \<Rightarrow> bool" where
  "startsWith s t = (take (length t) s = t)"

text \<open>\<open>s.includes(t)\<close>: \<open>t\<close> occurs in \<open>s\<close> as a substring.\<close>

primrec str_includes :: "string \<Rightarrow> string \<Rightarrow> bool" where
  "str_includes [] t = (t = [])"
| "str_includes (c # cs) t = (startsWith (c # cs) t \<or> str_includes cs t)"

text \<open>\<open>x || d\<close> for an optional string: absent and empty are both falsy.\<close>

definition or_else :: "string option \<Rightarrow> string \<Rightarrow> string" where
  "or_else x d = (case x of None \<Rightarrow> d | Some v \<Rightarrow> if v = [] then d else v)"

text \<open>
  A JavaScript \<open>Map\<close> with string keys is an association list in insertion order:
  \<open>m.set(k, v)\<close> is \<open>AList.update k v m\<close> (a present key keeps its place), \<open>m.has(k)\<close> is
  \<open>map_of m k \<noteq> None\<close>, \<open>m.values()\<close> is \<open>map snd m\<close>. \<open>Array.from(new Set(xs))\<close> keeps
  the first occurrence of every element.
\<close>

fun uniq :: "'a list \<Rightarrow> 'a list" where
  "uniq [] = []"
| "uniq (x # xs) = x # uniq (filter (\<lambda>y. y \<noteq> x) xs)"

section \<open>Sentiment scoring (src/pipeline/sentiment.ts)\<close>

text \<open>
  The result of \<open>analyzer.analyze\<close> of the external \<open>sentiment\<close> package, as far as
  \<open>analyzeSentiment\<close> reads it. The package is not part of the repository, so the
  analyzer is a parameter of the model; it may throw (\<open>Inl\<close> carries the message).
\<close>

record analysis =
  a_score :: real
  a_comparative :: real
  a_tokens :: "string list"

datatype label = positive | neutral | negative

record SentimentResult =
  sr_score :: real
  sr_label :: label
  sr_confidence :: real

type_synonym analyzer = "string \<Rightarrow> string + analysis"

text \<open>
  \<open>Number(x.toFixed(3))\<close> on exact reals: the nearest multiple of \<open>1/1000\<close>, a tie
  going away from zero (\<open>toFixed\<close> formats \<open>-x\<close> for a negative \<open>x\<close> and picks the
  larger candidate on a tie).
\<close>

definition toFixed3 :: "real \<Rightarrow> real" where
  "toFixed3 x =
     (if x < 0 then - (of_int (round (- x * 1000)) / 1000)
      else of_int (round (x * 1000)) / 1000)"

text \<open>
  \<open>analyzeSentiment\<close>; \<open>None\<close> is \<open>null\<close> or \<open>undefined\<close>. The guard
  \<open>!text || text.trim().length === 0\<close> returns before the analyzer is called.
\<close>

definition analyzeSentiment :: "analyzer \<Rightarrow> string option \<Rightarrow> string + SentimentResult" where
  "analyzeSentiment analyze input =
     (case input of
        None \<Rightarrow> Inr \<lparr>sr_score = 0, sr_label = neutral, sr_confidence = 0\<rparr>
      | Some t \<Rightarrow>
          if t = [] \<or> length (trim t) = 0
          then Inr \<lparr>sr_score = 0, sr_label = neutral, sr_confidence = 0\<rparr>
          else
            (case analyze t of
               Inl e \<Rightarrow> Inl e
             | Inr result \<Rightarrow>
                 let normalized =
                       (if a_score result > 5 then 1
                        else if a_score result < - 5 then - 1
                        else a_comparative result);
                     lbl =
                       (if normalized \<ge> 1 / 10 then positive
                        else if normalized \<le> - (1 / 10) then negative
                        else neutral)
                 in Inr \<lparr>sr_score = toFixed3 normalized,
                          sr_label = lbl,
                          sr_confidence =
                            min 1 (\<bar>normalized\<bar> + real (length (a_tokens result)) * (5 / 100))\<rparr>))"

section \<open>Rate governor (src/core/rateLimit.ts, src/unnamed/part_001)\<close>

text \<open>
  JavaScript numbers are modelled as exact reals. \<open>Date.now()\<close> is the field \<open>now\<close> of
  the world, in milliseconds. The code between two suspensions runs in no time; time
  passes while a caller sleeps and between two operations (event \<open>Tick\<close>). A sleep
  \<open>setTimeout(resolve, w)\<close> takes \<open>w\<close> and a lateness, which the event carries.
  Operations on one limiter do not interleave.
\<close>

record RateLimitState =
  tokens :: real
  lastRefill :: real
  maxTokens :: real
  refillRate :: real
  backoffMultiplier :: real
  lastRequest :: real

record world =
  now :: real
  limiters :: "string \<rightharpoonup> RateLimitState"

text \<open>
  \<open>config.rateLimits\<close>: src/config.ts always parses \<open>rateLimits: {}\<close>, so the schema's
  defaults are the values.
\<close>

definition rateLimits :: "string \<rightharpoonup> real" where
  "rateLimits platform =
     (if platform = ''reddit'' then Some 4
      else if platform = ''playstore'' then Some 12
      else if platform = ''appstore'' then Some 12
      else None)"

definition getOrCreateLimiter :: "string \<Rightarrow> world \<Rightarrow> RateLimitState \<times> world" where
  "getOrCreateLimiter platform w =
     (case limiters w platform of
        Some st \<Rightarrow> (st, w)
      | None \<Rightarrow>
          let rpm = (case rateLimits platform of
                       Some r \<Rightarrow> if r = 0 then 5 else r
                     | None \<Rightarrow> 5);
              st = \<lparr>tokens = 5, lastRefill = now w, maxTokens = 10, refillRate = rpm / 60,
                    backoffMultiplier = 1, lastRequest = 0\<rparr>
          in (st, w\<lparr>limiters := (limiters w)(platform \<mapsto> st)\<rparr>))"

definition refillTokens :: "real \<Rightarrow> RateLimitState \<Rightarrow> RateLimitState" where
  "refillTokens t st =
     (let elapsed = (t - lastRefill st) / 1000;
          tokensToAdd = elapsed * refillRate st
      in st\<lparr>tokens := min (maxTokens st) (tokens st + tokensToAdd), lastRefill := t\<rparr>)"

definition waitTime :: "RateLimitState \<Rightarrow> real" where
  "waitTime st = ((1 - tokens st) / refillRate st) * 1000 * backoffMultiplier st"

text \<open>
  \<open>rateLimit(platform)\<close>; \<open>late\<close> is the lateness of the wait for a token, \<open>jitter\<close> the
  time the closing jitter sleep took.
\<close>

definition rateLimit :: "string \<Rightarrow> real \<Rightarrow> real \<Rightarrow> world \<Rightarrow> world" where
  "rateLimit platform late jitter w =
     (let (st, w1) = getOrCreateLimiter platform w;
          st1 = refillTokens (now w1) st;
          t2 = (if tokens st1 < 1 then now w1 + waitTime st1 + late else now w1);
          st2 = (if tokens st1 < 1 then refillTokens t2 st1 else st1);
          st3 = st2\<lparr>tokens := tokens st2 - 1, lastRequest := t2\<rparr>
      in w1\<lparr>now := t2 + jitter, limiters := (limiters w1)(platform \<mapsto> st3)\<rparr>)"

definition reportSuccess :: "string \<Rightarrow> world \<Rightarrow> world" where
  "reportSuccess platform w =
     (let (st, w1) = getOrCreateLimiter platform w;
          st1 = st\<lparr>backoffMultiplier := max 1 (backoffMultiplier st * (9 / 10))\<rparr>
      in w1\<lparr>limiters := (limiters w1)(platform \<mapsto> st1)\<rparr>)"

definition reportFailure :: "string \<Rightarrow> world \<Rightarrow> world" where
  "reportFailure platform w =
     (let (st, w1) = getOrCreateLimiter platform w;
          st1 = st\<lparr>backoffMultiplier := min 10 (backoffMultiplier st * 2), tokens := 0\<rparr>
      in w1\<lparr>limiters := (limiters w1)(platform \<mapsto> st1)\<rparr>)"

text \<open>\<open>getRateLimitState\<close> refills the limiter it reads; its return value is not modelled.\<close>

definition getRateLimitState :: "string \<Rightarrow> world \<Rightarrow> world" where
  "getRateLimitState platform w =
     (case limiters w platform of
        None \<Rightarrow> w
      | Some st \<Rightarrow> w\<lparr>limiters := (limiters w)(platform \<mapsto> refillTokens (now w) st)\<rparr>)"

datatype event =
    Tick real
  | RateLimit string real real
  | ReportSuccess string
  | ReportFailure string
  | GetRateLimitState string

fun step :: "world \<Rightarrow> event \<Rightarrow> world" where
  "step w (Tick d) = w\<lparr>now := now w + d\<rparr>"
| "step w (RateLimit platform late jitter) = rateLimit platform late jitter w"
| "step w (ReportSuccess platform) = reportSuccess platform w"
| "step w (ReportFailure platform) = reportFailure platform w"
| "step w (GetRateLimitState platform) = getRateLimitState platform w"

definition run_events :: "event list \<Rightarrow> world \<Rightarrow> world" where
  "run_events evs w = foldl step w evs"

text \<open>The clock does not run backwards and no sleep ends early.\<close>

fun well_timed :: "event \<Rightarrow> bool" where
  "well_timed (Tick d) = (0 \<le> d)"
| "well_timed (RateLimit platform late jitter) = (0 \<le> late \<and> 0 \<le> jitter)"
| "well_timed (ReportSuccess platform) = True"
| "well_timed (ReportFailure platform) = True"
| "well_timed (GetRateLimitState platform) = True"

definition start :: "real \<Rightarrow> world" where
  "start t0 = \<lparr>now = t0, limiters = Map.empty\<rparr>"

text \<open>What holds of every limiter the module has created.\<close>

definition limiter_ok :: "real \<Rightarrow> RateLimitState \<Rightarrow> bool" where
  "limiter_ok t st =
     (0 \<le> tokens st \<and> tokens st \<le> maxTokens st \<and> 1 \<le> maxTokens st \<and> 0 < refillRate st \<and>
      1 \<le> backoffMultiplier st \<and> backoffMultiplier st \<le> 10 \<and> lastRefill st \<le> t)"

definition world_ok :: "world \<Rightarrow> bool" where
  "world_ok w = (\<forall>platform st. limiters w platform = Some st \<longrightarrow> limiter_ok (now w) st)"

section \<open>Reddit's rate limiter (src/scrapers/reddit.ts, ProductionRateLimiter)\<close>

record ProductionRateLimiter =
  p_tokens :: real
  p_maxTokens :: real
  p_refillRate :: real
  p_lastRefill :: real
  p_backoffMultiplier :: real
  p_consecutiveErrors :: nat

definition newProductionRateLimiter :: "real \<Rightarrow> real \<Rightarrow> ProductionRateLimiter" where
  "newProductionRateLimiter requestsPerMinute t =
     \<lparr>p_tokens = of_int \<lceil>requestsPerMinute / 2\<rceil>,
      p_maxTokens = of_int \<lceil>requestsPerMinute / 2\<rceil>,
      p_refillRate = requestsPerMinute / 60,
      p_lastRefill = t,
      p_backoffMultiplier = 1,
      p_consecutiveErrors = 0\<rparr>"

definition p_refillTokens :: "real \<Rightarrow> ProductionRateLimiter \<Rightarrow> ProductionRateLimiter" where
  "p_refillTokens t l =
     (let elapsed = (t - p_lastRefill l) / 1000
      in l\<lparr>p_tokens := min (p_maxTokens l) (p_tokens l + elapsed * p_refillRate l),
            p_lastRefill := t\<rparr>)"

text \<open>
  \<open>acquire()\<close> at clock reading \<open>t\<close>; the result is the limiter and the clock reading
  when \<open>acquire\<close> returns.
\<close>

definition acquire :: "real \<Rightarrow> real \<Rightarrow> ProductionRateLimiter \<Rightarrow> ProductionRateLimiter \<times> real" where
  "acquire t late l =
     (let l1 = p_refillTokens t l
      in if p_tokens l1 < 1
         then
           let waitTime = of_int \<lceil>(1 / p_refillRate l1) * 1000 * p_backoffMultiplier l1\<rceil>;
               t2 = t + waitTime + late;
               l2 = p_refillTokens t2 l1
           in (l2\<lparr>p_tokens := max 0 (p_tokens l2 - 1)\<rparr>, t2)
         else (l1\<lparr>p_tokens := max 0 (p_tokens l1 - 1)\<rparr>, t))"

definition onSuccess :: "ProductionRateLimiter \<Rightarrow> ProductionRateLimiter" where
  "onSuccess l =
     l\<lparr>p_consecutiveErrors := 0,
       p_backoffMultiplier := max 1 (p_backoffMultiplier l * (9 / 10))\<rparr>"

definition onRateLimit :: "ProductionRateLimiter \<Rightarrow> ProductionRateLimiter" where
  "onRateLimit l =
     l\<lparr>p_consecutiveErrors := p_consecutiveErrors l + 1,
       p_backoffMultiplier := min 10 (p_backoffMultiplier l * 2),
       p_tokens := 0\<rparr>"

definition getBackoffTime :: "ProductionRateLimiter \<Rightarrow> real" where
  "getBackoffTime l = min 30000 (2000 * 2 ^ p_consecutiveErrors l)"

datatype p_event = Wait real | Acquire real | OnSuccess | OnRateLimit

fun p_step :: "ProductionRateLimiter \<times> real \<Rightarrow> p_event \<Rightarrow> ProductionRateLimiter \<times> real" where
  "p_step (l, t) (Wait d) = (l, t + d)"
| "p_step (l, t) (Acquire late) = acquire t late l"
| "p_step (l, t) OnSuccess = (onSuccess l, t)"
| "p_step (l, t) OnRateLimit = (onRateLimit l, t)"

definition p_run :: "p_event list \<Rightarrow> ProductionRateLimiter \<times> real \<Rightarrow> ProductionRateLimiter \<times> real" where
  "p_run evs s = foldl p_step s evs"

fun p_well_timed :: "p_event \<Rightarrow> bool" where
  "p_well_timed (Wait d) = (0 \<le> d)"
| "p_well_timed (Acquire late) = (0 \<le> late)"
| "p_well_timed OnSuccess = True"
| "p_well_timed OnRateLimit = True"

definition p_limiter_ok :: "ProductionRateLimiter \<times> real \<Rightarrow> bool" where
  "p_limiter_ok s =
     (case s of (l, t) \<Rightarrow>
        0 \<le> p_tokens l \<and> p_tokens l \<le> p_maxTokens l \<and> 0 \<le> p_maxTokens l \<and> 0 < p_refillRate l \<and>
        1 \<le> p_backoffMultiplier l \<and> p_backoffMultiplier l \<le> 10 \<and> p_lastRefill l \<le> t)"

section \<open>Persistence (src/db/schema.ts, src/db/queries.ts)\<close>

text \<open>
  A date string is represented by what \<open>new Date(s)\<close> makes of it: the milliseconds
  since the epoch, or \<open>Invalid\<close> for an Invalid Date. A stored ISO string is its time
  value. One clock reading \<open>now\<close> stands for \<open>Date.now()\<close>, \<open>new Date()\<close> and SQLite's
  \<open>datetime('now')\<close> during a run of a marketplace scraper.
\<close>

datatype js_date = Valid int | Invalid

record ScrapeCursor =
  last_scraped_at :: int
  last_item_date :: "int option"
  last_item_ids :: "string list option"

record Review =
  rv_platform_id :: nat
  rv_external_id :: string
  rv_author :: "string option"
  rv_rating :: int
  rv_title :: "string option"
  rv_content :: "string option"
  rv_app_version :: "string option"
  rv_helpful_count :: int
  rv_developer_reply :: "string option"
  rv_sentiment_score :: "real option"
  rv_sentiment_label :: "label option"
  rv_review_date :: int

record Mention =
  m_platform_id :: nat
  m_external_id :: string
  m_author :: "string option"
  m_author_url :: "string option"
  m_content :: string
  m_url :: "string option"
  m_engagement_likes :: int
  m_engagement_comments :: int
  m_engagement_shares :: int
  m_sentiment_score :: "real option"
  m_sentiment_label :: "label option"
  m_created_at :: int

datatype log_status = running | success | failed

record ScrapeLog =
  sl_platform :: string
  sl_status :: log_status
  sl_items_found :: nat
  sl_items_new :: nat
  sl_error :: "string option"
  sl_started_at :: int
  sl_completed_at :: "int option"

text \<open>
  The tables: \<open>scrape_cursors\<close> by platform; \<open>reviews\<close> and \<open>mentions\<close> by their unique
  key \<open>(platform_id, external_id)\<close>, in insertion order; \<open>scrape_logs\<close> in insertion order,
  the row id being the position counted from 1.
\<close>

record db =
  cursors :: "string \<rightharpoonup> ScrapeCursor"
  reviews :: "((nat \<times> string) \<times> Review) list"
  mentions :: "((nat \<times> string) \<times> Mention) list"
  scrape_logs :: "ScrapeLog list"

definition PLATFORMS :: "string \<rightharpoonup> nat" where
  "PLATFORMS = [''reddit'' \<mapsto> 1, ''playstore'' \<mapsto> 4, ''appstore'' \<mapsto> 5]"

definition getScrapeCursor :: "string \<Rightarrow> db \<Rightarrow> ScrapeCursor option" where
  "getScrapeCursor platform d = cursors d platform"

text \<open>
  \<open>updateScrapeCursor(platform, lastItemDate?, lastItemIds?)\<close>: the upsert writes
  \<open>last_scraped_at = datetime('now')\<close> and replaces both other columns, by \<open>null\<close> where
  the argument is left out.
\<close>

definition updateScrapeCursor :: "int \<Rightarrow> string \<Rightarrow> int option \<Rightarrow> string list option \<Rightarrow> db \<Rightarrow> db" where
  "updateScrapeCursor now' platform lastItemDate lastItemIds d =
     d\<lparr>cursors := (cursors d)(platform \<mapsto>
          \<lparr>last_scraped_at = now', last_item_date = lastItemDate, last_item_ids = lastItemIds\<rparr>)\<rparr>"

text \<open>The upsert of \<open>insertReviewStmt\<close>: a conflicting row keeps its \<open>review_date\<close>.\<close>

definition upsertReview :: "Review \<Rightarrow> ((nat \<times> string) \<times> Review) list \<Rightarrow> ((nat \<times> string) \<times> Review) list" where
  "upsertReview r rows =
     (let k = (rv_platform_id r, rv_external_id r)
      in case map_of rows k of
           None \<Rightarrow> rows @ [(k, r)]
         | Some old \<Rightarrow> AList.update k (r\<lparr>rv_review_date := rv_review_date old\<rparr>) rows)"

definition insertReviews :: "Review list \<Rightarrow> db \<Rightarrow> nat \<times> db" where
  "insertReviews items d =
     foldl (\<lambda>(newCount, d') review.
              (if map_of (reviews d') (rv_platform_id review, rv_external_id review) = None
               then newCount + 1 else newCount,
               d'\<lparr>reviews := upsertReview review (reviews d')\<rparr>))
           (0, d) items"

definition upsertMention :: "Mention \<Rightarrow> ((nat \<times> string) \<times> Mention) list \<Rightarrow> ((nat \<times> string) \<times> Mention) list" where
  "upsertMention m rows =
     (let k = (m_platform_id m, m_external_id m)
      in case map_of rows k of
           None \<Rightarrow> rows @ [(k, m)]
         | Some old \<Rightarrow> AList.update k (m\<lparr>m_created_at := m_created_at old\<rparr>) rows)"

definition insertMentions :: "Mention list \<Rightarrow> db \<Rightarrow> nat \<times> db" where
  "insertMentions items d =
     foldl (\<lambda>(newCount, d') mention.
              (if map_of (mentions d') (m_platform_id mention, m_external_id mention) = None
               then newCount + 1 else newCount,
               d'\<lparr>mentions := upsertMention mention (mentions d')\<rparr>))
           (0, d) items"

definition logScrapeStart :: "int \<Rightarrow> string \<Rightarrow> db \<Rightarrow> nat \<times> db" where
  "logScrapeStart now' platform d =
     (Suc (length (scrape_logs d)),
      d\<lparr>scrape_logs := scrape_logs d @
           [\<lparr>sl_platform = platform, sl_status = running, sl_items_found = 0, sl_items_new = 0,
             sl_error = None, sl_started_at = now', sl_completed_at = None\<rparr>]\<rparr>)"

definition logScrapeEnd :: "int \<Rightarrow> nat \<Rightarrow> log_status \<Rightarrow> nat \<Rightarrow> nat \<Rightarrow> string option \<Rightarrow> db \<Rightarrow> db" where
  "logScrapeEnd now' logId status itemsFound itemsNew err d =
     (if logId = 0 \<or> length (scrape_logs d) < logId then d
      else d\<lparr>scrape_logs := (scrape_logs d)[logId - 1 :=
             (scrape_logs d ! (logId - 1))
               \<lparr>sl_status := status, sl_items_found := itemsFound, sl_items_new := itemsNew,
                sl_error := (case err of None \<Rightarrow> None | Some e \<Rightarrow> if e = [] then None else Some e),
                sl_completed_at := Some now'\<rparr>]\<rparr>)"

text \<open>
  \<open>getRecentExternalIds\<close> for a marketplace: the newest \<open>limit\<close> rows of \<open>reviews\<close> by
  \<open>review_date\<close>; for Reddit the newest rows of \<open>mentions\<close> by \<open>created_at\<close>.
\<close>

definition getRecentExternalIds :: "string \<Rightarrow> nat \<Rightarrow> db \<Rightarrow> string list" where
  "getRecentExternalIds platform limit d =
     (case PLATFORMS platform of
        None \<Rightarrow> []
      | Some platformId \<Rightarrow>
          if platform = ''appstore'' \<or> platform = ''playstore''
          then take limit (map rv_external_id
                 (sort_key (\<lambda>r. - rv_review_date r)
                    (filter (\<lambda>r. rv_platform_id r = platformId) (map snd (reviews d)))))
          else take limit (map m_external_id
                 (sort_key (\<lambda>m. - m_created_at m)
                    (filter (\<lambda>m. m_platform_id m = platformId) (map snd (mentions d))))))"

section \<open>App Store scraper (src/scrapers/appstore.ts, src/unnamed/part_002)\<close>

record AppStoreReview =
  r_id :: string
  r_author :: string
  r_rating :: int
  r_title :: string
  r_content :: string
  r_version :: string
  r_updated :: js_date
  r_country :: string

text \<open>
  An entry of the RSS feed's JSON, as far as the scraper reads it: whether it has the
  key \<open>im:name\<close> (the entry of the app itself), and the labels, \<open>None\<close> where a label is
  absent. \<open>e_rating\<close> is \<open>parseInt\<close> of the label, \<open>None\<close> for \<open>NaN\<close>.
\<close>

record Entry =
  e_im_name :: bool
  e_updated :: "js_date option"
  e_id :: "string option"
  e_author :: "string option"
  e_rating :: "int option"
  e_title :: "string option"
  e_content :: "string option"
  e_version :: "string option"

text \<open>
  What one page request gives: \<open>withRetry\<close> rethrew or \<open>response.json()\<close> threw
  (\<open>FetchFailed\<close>), a response that is not \<open>ok\<close>, a body without \<open>feed.entry\<close>, or the
  entries (a single entry object is the list of that entry).
\<close>

datatype response = FetchFailed | NotOk | NoEntries | Entries "Entry list"

text \<open>
  The world of an App Store run: the clock reading, the feed by country and page, the
  identifier \<open>as-<country>-<time>-<random>\<close> made for an entry without one (by country
  and number of reviews collected so far), what the browser phase returns for a cutoff,
  whether \<open>APPSTORE_APP_ID\<close> is configured, and the analyzer.
\<close>

record as_env =
  as_now :: int
  as_feed :: "string \<Rightarrow> nat \<Rightarrow> response"
  as_genId :: "string \<Rightarrow> nat \<Rightarrow> string"
  as_browser :: "int option \<Rightarrow> (string \<times> AppStoreReview) list"
  as_appIdConfigured :: bool
  as_analyze :: analyzer

text \<open>\<open>new Date(updated) <= cutoffDate\<close>: false for an Invalid Date.\<close>

definition date_le :: "js_date \<Rightarrow> int \<Rightarrow> bool" where
  "date_le d c = (case d of Valid t \<Rightarrow> t \<le> c | Invalid \<Rightarrow> False)"

text \<open>
  The body of the loop over the entries of a page; the state is the reviews collected,
  \<open>pageReviewCount\<close> and \<open>skipCount\<close>.
\<close>

definition processEntry ::
  "as_env \<Rightarrow> string \<Rightarrow> int option \<Rightarrow> AppStoreReview list \<times> nat \<times> nat \<Rightarrow> Entry \<Rightarrow>
   AppStoreReview list \<times> nat \<times> nat" where
  "processEntry env country cutoffDate s entry =
     (case s of (revs, pageReviewCount, skipCount) \<Rightarrow>
        if e_im_name entry then s
        else
          let updated = (case e_updated entry of None \<Rightarrow> Valid (as_now env) | Some u \<Rightarrow> u)
          in if (case cutoffDate of None \<Rightarrow> False | Some c \<Rightarrow> date_le updated c)
             then (revs, pageReviewCount, skipCount + 1)
             else
               (revs @
                  [\<lparr>r_id = or_else (e_id entry) (as_genId env country (length revs)),
                    r_author = or_else (e_author entry) ''Anonymous'',
                    r_rating = (case e_rating entry of None \<Rightarrow> 0 | Some n \<Rightarrow> n),
                    r_title = or_else (e_title entry) [],
                    r_content = or_else (e_content entry) [],
                    r_version = or_else (e_version entry) [],
                    r_updated = updated,
                    r_country = toUpperCase country\<rparr>],
                pageReviewCount + 1, skipCount))"


definition maxPages :: nat where
  "maxPages = 10"

text \<open>
  The page loop of \<open>fetchAllPagesForCountry\<close>. Beside the reviews it returns the pages it
  requested, in order.
\<close>

function fetchPages ::
  "as_env \<Rightarrow> string \<Rightarrow> int option \<Rightarrow> nat \<Rightarrow> AppStoreReview list \<times> nat list \<Rightarrow>
   AppStoreReview list \<times> nat list" where
  "fetchPages env country cutoffDate page (revs, requested) =
     (if maxPages < page then (revs, requested)
      else
        (case as_feed env country page of
           FetchFailed \<Rightarrow> (revs, requested @ [page])
         | NotOk \<Rightarrow> (revs, requested @ [page])
         | NoEntries \<Rightarrow> (revs, requested @ [page])
         | Entries entries \<Rightarrow>
             (case foldl (processEntry env country cutoffDate) (revs, 0, 0) entries of
                (revs', pageReviewCount, skipCount) \<Rightarrow>
                  if pageReviewCount = 0 \<and> 0 < skipCount then (revs', requested @ [page])
                  else if pageReviewCount = 0 then (revs', requested @ [page])
                  else fetchPages env country cutoffDate (page + 1) (revs', requested @ [page]))))"
  by pat_completeness auto
termination
  by (relation "measure (\<lambda>(env, country, cutoffDate, page, s). Suc maxPages - page)") auto

definition fetchAllPagesForCountry ::
  "as_env \<Rightarrow> string \<Rightarrow> int option \<Rightarrow> AppStoreReview list \<times> nat list" where
  "fetchAllPagesForCountry env country cutoffDate = fetchPages env country cutoffDate 1 ([], [])"

definition countries :: "string list" where
  "countries =
     [''in'', ''us'', ''gb'', ''ca'', ''au'', ''nz'',
      ''sg'', ''my'', ''ph'', ''id'', ''th'', ''vn'', ''pk'', ''bd'', ''lk'', ''np'',
      ''ae'', ''sa'', ''za'', ''eg'', ''ng'', ''ke'',
      ''de'', ''fr'', ''it'', ''es'', ''nl'', ''be'', ''pt'', ''pl'', ''ru'', ''tr'', ''se'', ''no'',
      ''dk'', ''fi'', ''at'', ''ch'', ''ie'',
      ''mx'', ''br'', ''ar'', ''cl'', ''co'', ''pe'',
      ''jp'', ''kr'', ''tw'', ''hk'', ''cn'']"

text \<open>\<open>if (!m.has(id)) m.set(id, review)\<close> for each pair of a list.\<close>

definition addMissing :: "(string \<times> 'v) list \<Rightarrow> (string \<times> 'v) list \<Rightarrow> (string \<times> 'v) list" where
  "addMissing m kvs =
     foldl (\<lambda>acc kv. if map_of acc (fst kv) = None then acc @ [kv] else acc) m kvs"

definition fetchFromRSSFeeds :: "as_env \<Rightarrow> int option \<Rightarrow> (string \<times> AppStoreReview) list" where
  "fetchFromRSSFeeds env cutoffDate =
     foldl (\<lambda>allReviews country.
              addMissing allReviews
                (map (\<lambda>review. (r_id review, review)) (fst (fetchAllPagesForCountry env country cutoffDate))))
       [] countries"

definition normalizeDate :: "int \<Rightarrow> js_date \<Rightarrow> int" where
  "normalizeDate now' d = (case d of Valid t \<Rightarrow> t | Invalid \<Rightarrow> now')"

text \<open>
  The conversion loop of \<open>run\<close>: the reviews in the order of the map, and
  \<open>newestDateFound\<close>. It fails when the analyzer throws.
\<close>

definition as_convert ::
  "as_env \<Rightarrow> string + Review list \<times> int option \<Rightarrow> AppStoreReview \<Rightarrow> string + Review list \<times> int option" where
  "as_convert env acc review =
     (case acc of
        Inl e \<Rightarrow> Inl e
      | Inr (revs, newestDateFound) \<Rightarrow>
          (case analyzeSentiment (as_analyze env)
                  (Some (if r_content review = [] then r_title review else r_content review)) of
             Inl e \<Rightarrow> Inl e
           | Inr sentiment \<Rightarrow>
               let reviewDate = normalizeDate (as_now env) (r_updated review)
               in Inr (revs @
                         [\<lparr>rv_platform_id = 5,
                           rv_external_id = r_id review,
                           rv_author = Some (r_author review),
                           rv_rating = r_rating review,
                           rv_title = Some (r_title review),
                           rv_content = Some (r_content review),
                           rv_app_version = (if r_version review = [] then None else Some (r_version review)),
                           rv_helpful_count = 0,
                           rv_developer_reply = None,
                           rv_sentiment_score = Some (sr_score sentiment),
                           rv_sentiment_label = Some (sr_label sentiment),
                           rv_review_date = reviewDate\<rparr>],
                       (case newestDateFound of
                          None \<Rightarrow> Some reviewDate
                        | Some n \<Rightarrow> if n < reviewDate then Some reviewDate else Some n))))"

text \<open>
  \<open>reviews.sort((a, b) => date(b) - date(a)).slice(0, n).map(r => r.external_id)\<close>:
  the sort is stable and descending by date.
\<close>

definition recentIds :: "nat \<Rightarrow> Review list \<Rightarrow> string list" where
  "recentIds n revs = map rv_external_id (take n (sort_key (\<lambda>r. - rv_review_date r) revs))"

record 'a run_result =
  items :: "'a list"
  newItems :: nat
  errors :: "string list"

text \<open>
  The two fetch phases of \<open>AppStoreScraper.run\<close>: the RSS feeds, then the browser unless
  the run is incremental, the feeds gave nothing and the last scrape is less than a day
  old. \<open>allReviews\<close> holds the RSS reviews and the browser's reviews with other keys.
\<close>

definition as_collect :: "as_env \<Rightarrow> db \<Rightarrow> (string \<times> AppStoreReview) list" where
  "as_collect env d =
     (let cursor = getScrapeCursor ''appstore'' d;
          cutoffDate = (case cursor of None \<Rightarrow> None | Some c \<Rightarrow> last_item_date c);
          isIncremental = (cutoffDate \<noteq> None);
          rssReviews = fetchFromRSSFeeds env cutoffDate;
          shouldRunBrowser =
            (\<not> isIncremental \<or> 0 < length rssReviews \<or> cursor = None \<or>
             (case cursor of None \<Rightarrow> False
              | Some c \<Rightarrow> 24 * 60 * 60 * 1000 < as_now env - last_scraped_at c))
      in if shouldRunBrowser then addMissing rssReviews (as_browser env cutoffDate) else rssReviews)"

text \<open>
  \<open>AppStoreScraper.run\<close>. The result of the run and the database after it. The reviews
  it returns are sorted when the cursor was written (\<open>sort\<close> works in place).
\<close>

definition as_run :: "as_env \<Rightarrow> db \<Rightarrow> Review run_result \<times> db" where
  "as_run env d =
     (let cursor = getScrapeCursor ''appstore'' d;
          cutoffDate = (case cursor of None \<Rightarrow> None | Some c \<Rightarrow> last_item_date c);
          (logId, d1) = logScrapeStart (as_now env) ''appstore'' d;
          failWith = (\<lambda>msg. (\<lparr>items = [], newItems = 0, errors = [msg]\<rparr>,
                             logScrapeEnd (as_now env) logId failed 0 0 (Some msg) d1))
      in if \<not> as_appIdConfigured env
         then failWith ''App Store app ID not configured. Set APPSTORE_APP_ID in .env''
         else
           (case foldl (as_convert env) (Inr ([], None)) (map snd (as_collect env d)) of
              Inl e \<Rightarrow> failWith e
            | Inr (revs, newestDateFound) \<Rightarrow>
                let (newItems', d2) = insertReviews revs d1;
                    updating =
                      (case newestDateFound of
                         None \<Rightarrow> False
                       | Some n \<Rightarrow> (case cutoffDate of None \<Rightarrow> True | Some c \<Rightarrow> c < n));
                    d3 =
                      (case newestDateFound of
                         Some n \<Rightarrow>
                           if updating
                           then updateScrapeCursor (as_now env) ''appstore'' (Some n)
                                  (Some (recentIds 100 revs)) d2
                           else d2
                       | None \<Rightarrow>
                           if cursor = None \<and> 0 < length revs
                           then updateScrapeCursor (as_now env) ''appstore'' (Some (as_now env)) None d2
                           else d2);
                    revs' = (if updating then sort_key (\<lambda>r. - rv_review_date r) revs else revs)
                in (\<lparr>items = revs', newItems = newItems', errors = []\<rparr>,
                    logScrapeEnd (as_now env) logId success (length revs) newItems' None d3)))"

text \<open>A small feed for concrete evaluation: three pages for the country \<open>us\<close>.\<close>

definition ex_entry :: "bool \<Rightarrow> int \<Rightarrow> string \<Rightarrow> Entry" where
  "ex_entry app t i =
     \<lparr>e_im_name = app, e_updated = Some (Valid t), e_id = Some i, e_author = Some ''ann'',
      e_rating = Some 5, e_title = Some ''nice'', e_content = Some ''good app'', e_version = Some ''1.0''\<rparr>"

definition ex_env :: as_env where
  "ex_env =
     \<lparr>as_now = 1000,
      as_feed = (\<lambda>country page.
         if country = ''us'' \<and> page = 1
         then Entries [ex_entry True 0 ''app'', ex_entry False 300 ''r1'', ex_entry False 250 ''r2'']
         else if country = ''us'' \<and> page = 2
         then Entries [ex_entry False 200 ''r3'', ex_entry False 150 ''r4'']
         else if country = ''us'' \<and> page = 3
         then Entries [ex_entry False 500 ''r5'']
         else NoEntries),
      as_genId = (\<lambda>country n. ''as-generated''),
      as_browser = (\<lambda>cutoffDate. []),
      as_appIdConfigured = True,
      as_analyze = (\<lambda>t. Inr \<lparr>a_score = 0, a_comparative = 0, a_tokens = []\<rparr>)\<rparr>"

section \<open>Play Store scraper (src/scrapers/playstore.ts)\<close>

record PlayStoreReviewData =
  pr_id :: string
  pr_userName :: string
  pr_date :: "js_date option"
  pr_score :: int
  pr_text :: string
  pr_thumbsUp :: int
  pr_version :: "string option"
  pr_replyText :: "string option"

text \<open>A review as \<open>gplay.reviews\<close> returns it; \<open>None\<close> is an absent (or falsy) field.\<close>

record ApiReview =
  api_id :: "string option"
  api_userName :: "string option"
  api_date :: "js_date option"
  api_score :: "int option"
  api_text :: "string option"
  api_thumbsUp :: "int option"
  api_version :: "string option"
  api_replyText :: "string option"

datatype sort_kind = NEWEST | RATING | HELPFULNESS

text \<open>
  A page of the API: the call failed after its retries, the result is not an array, or
  the reviews and whether a \<open>nextPaginationToken\<close> came with them. The pages of one
  sort order are numbered from 0 along the chain of tokens.
\<close>

datatype api_result = ApiFailed | ApiNotArray | ApiPage "ApiReview list" bool

record ps_env =
  ps_now :: int
  ps_api :: "sort_kind \<Rightarrow> nat \<Rightarrow> api_result"
  ps_browser :: "string set \<Rightarrow> bool \<Rightarrow> (string \<times> PlayStoreReviewData) list"
  ps_appIdConfigured :: bool
  ps_analyze :: analyzer

text \<open>
  The body of the loop over the reviews of an API page; the state is \<open>allReviews\<close>,
  \<open>newInBatch\<close> and \<open>consecutiveKnownIds\<close>.
\<close>

definition apiReview ::
  "string set \<Rightarrow> (string \<times> PlayStoreReviewData) list \<times> nat \<times> nat \<Rightarrow> ApiReview \<Rightarrow>
   (string \<times> PlayStoreReviewData) list \<times> nat \<times> nat" where
  "apiReview knownIds s review =
     (case s of (allReviews, newInBatch, consecutiveKnownIds) \<Rightarrow>
        (case api_id review of
           None \<Rightarrow> s
         | Some rid \<Rightarrow>
             if rid = [] then s
             else if rid \<in> knownIds then (allReviews, newInBatch, consecutiveKnownIds + 1)
             else if map_of allReviews rid = None
             then (allReviews @
                     [(rid, \<lparr>pr_id = rid,
                             pr_userName = or_else (api_userName review) ''Anonymous'',
                             pr_date = api_date review,
                             pr_score = (case api_score review of None \<Rightarrow> 0 | Some n \<Rightarrow> n),
                             pr_text = or_else (api_text review) [],
                             pr_thumbsUp = (case api_thumbsUp review of None \<Rightarrow> 0 | Some n \<Rightarrow> n),
                             pr_version = api_version review,
                             pr_replyText = api_replyText review\<rparr>)],
                   newInBatch + 1, 0)
             else s))"

function apiPages ::
  "ps_env \<Rightarrow> string set \<Rightarrow> sort_kind \<Rightarrow> nat \<Rightarrow> (string \<times> PlayStoreReviewData) list \<times> nat \<Rightarrow>
   (string \<times> PlayStoreReviewData) list" where
  "apiPages env knownIds sort' pageCount (allReviews, consecutiveKnownIds) =
     (if \<not> pageCount < 50 then allReviews
      else
        (case ps_api env sort' pageCount of
           ApiFailed \<Rightarrow> allReviews
         | ApiNotArray \<Rightarrow> allReviews
         | ApiPage reviewsData hasNext \<Rightarrow>
             if reviewsData = [] then allReviews
             else
               (case foldl (apiReview knownIds) (allReviews, 0, consecutiveKnownIds) reviewsData of
                  (allReviews', newInBatch, consecutiveKnownIds') \<Rightarrow>
                    if sort' = NEWEST \<and> 20 < consecutiveKnownIds' then allReviews'
                    else if \<not> hasNext then allReviews'
                    else apiPages env knownIds sort' (pageCount + 1) (allReviews', consecutiveKnownIds'))))"
  by pat_completeness auto
termination
  by (relation "measure (\<lambda>(env, knownIds, sort', pageCount, s). 50 - pageCount)") auto

definition fetchViaAPI :: "ps_env \<Rightarrow> string set \<Rightarrow> (string \<times> PlayStoreReviewData) list" where
  "fetchViaAPI env knownIds =
     foldl (\<lambda>allReviews sort'. apiPages env knownIds sort' 0 (allReviews, 0)) []
       [NEWEST, RATING, HELPFULNESS]"

text \<open>
  The conversion loop of \<open>run\<close>. \<open>new Date(review.date).toISOString()\<close> throws a
  \<open>RangeError\<close> for a date that is present and does not parse.
\<close>

definition ps_convert ::
  "ps_env \<Rightarrow> string + Review list \<times> int option \<Rightarrow> PlayStoreReviewData \<Rightarrow> string + Review list \<times> int option" where
  "ps_convert env acc review =
     (case acc of
        Inl e \<Rightarrow> Inl e
      | Inr (revs, newestDateFound) \<Rightarrow>
          (case analyzeSentiment (ps_analyze env) (Some (pr_text review)) of
             Inl e \<Rightarrow> Inl e
           | Inr sentiment \<Rightarrow>
               let newest =
                     (case pr_date review of
                        Some (Valid t) \<Rightarrow>
                          (case newestDateFound of
                             None \<Rightarrow> Some t
                           | Some n \<Rightarrow> if n < t then Some t else Some n)
                      | _ \<Rightarrow> newestDateFound)
               in case pr_date review of
                    Some Invalid \<Rightarrow> Inl ''Invalid time value''
                  | d \<Rightarrow>
                      Inr (revs @
                             [\<lparr>rv_platform_id = 4,
                               rv_external_id = pr_id review,
                               rv_author = Some (if pr_userName review = [] then ''Anonymous'' else pr_userName review),
                               rv_rating = pr_score review,
                               rv_title = None,
                               rv_content = Some (pr_text review),
                               rv_app_version =
                                 (case pr_version review of None \<Rightarrow> None
                                  | Some v \<Rightarrow> if v = [] then None else Some v),
                               rv_helpful_count = pr_thumbsUp review,
                               rv_developer_reply =
                                 (case pr_replyText review of None \<Rightarrow> None
                                  | Some v \<Rightarrow> if v = [] then None else Some v),
                               rv_sentiment_score = Some (sr_score sentiment),
                               rv_sentiment_label = Some (sr_label sentiment),
                               rv_review_date = (case d of Some (Valid t) \<Rightarrow> t | _ \<Rightarrow> ps_now env)\<rparr>],
                           newest)))"

text \<open>
  The two fetch phases of \<open>PlayStoreScraper.run\<close> and the merge: the browser's reviews
  first, the API's reviews written over them.
\<close>

definition ps_collect :: "ps_env \<Rightarrow> db \<Rightarrow> (string \<times> PlayStoreReviewData) list" where
  "ps_collect env d =
     (let cursor = getScrapeCursor ''playstore'' d;
          isIncremental = (cursor \<noteq> None);
          knownIds = set (getRecentExternalIds ''playstore'' 1000 d);
          apiReviews = fetchViaAPI env knownIds;
          shouldRunBrowser =
            (\<not> isIncremental \<or> 0 < length apiReviews \<or> cursor = None \<or>
             (case cursor of None \<Rightarrow> False
              | Some c \<Rightarrow> 24 * 60 * 60 * 1000 < ps_now env - last_scraped_at c));
          browserReviews = (if shouldRunBrowser then ps_browser env knownIds isIncremental else [])
      in foldl (\<lambda>m kv. AList.update (fst kv) (snd kv) m)
           (foldl (\<lambda>m kv. AList.update (fst kv) (snd kv) m) [] browserReviews) apiReviews)"

text \<open>\<open>PlayStoreScraper.run\<close>: the result of the run and the database after it.\<close>

definition ps_run :: "ps_env \<Rightarrow> db \<Rightarrow> Review run_result \<times> db" where
  "ps_run env d =
     (let cursor = getScrapeCursor ''playstore'' d;
          (logId, d1) = logScrapeStart (ps_now env) ''playstore'' d;
          failWith = (\<lambda>msg. (\<lparr>items = [], newItems = 0, errors = [msg]\<rparr>,
                             logScrapeEnd (ps_now env) logId failed 0 0 (Some msg) d1))
      in if \<not> ps_appIdConfigured env
         then failWith ''Play Store app ID not configured. Set PLAYSTORE_APP_ID in .env''
         else
           (case foldl (ps_convert env) (Inr ([], None)) (map snd (ps_collect env d)) of
              Inl e \<Rightarrow> failWith e
            | Inr (revs, newestDateFound) \<Rightarrow>
                if 0 < length revs
                then
                  let (newItems', d2) = insertReviews revs d1;
                      d3 = updateScrapeCursor (ps_now env) ''playstore'' newestDateFound
                             (Some (recentIds 50 revs)) d2
                  in (\<lparr>items = sort_key (\<lambda>r. - rv_review_date r) revs, newItems = newItems', errors = []\<rparr>,
                      logScrapeEnd (ps_now env) logId success (length revs) newItems' None d3)
                else
                  let d3 = (if cursor = None
                            then updateScrapeCursor (ps_now env) ''playstore'' (Some (ps_now env)) None d1
                            else d1)
                  in (\<lparr>items = revs, newItems = 0, errors = []\<rparr>,
                      logScrapeEnd (ps_now env) logId success (length revs) 0 None d3)))"

section \<open>Configuration (src/config.ts)\<close>

text \<open>The fields of \<open>config\<close> the relevance filter and the Reddit scraper read.\<close>

record config =
  searchTerms :: "string list"
  brandRequiredTerms :: "string list"
  brandStrict :: bool
  brandBalanced :: bool
  brandSubreddits :: "string list"
  playstoreAppId :: string
  appstoreAppId :: string

text \<open>The schema's defaults, which stand when the environment sets none of the variables.\<close>

definition default_config :: config where
  "default_config =
     \<lparr>searchTerms = [''matiks''],
      brandRequiredTerms = [''matiks.in''],
      brandStrict = False,
      brandBalanced = True,
      brandSubreddits = [''matiks''],
      playstoreAppId = ''com.matiks.app'',
      appstoreAppId = ''123456789''\<rparr>"

section \<open>Relevance filter (src/core/brandFilter.ts)\<close>

definition getBrandAnchors :: "config \<Rightarrow> string list" where
  "getBrandAnchors cfg =
     uniq (filter (\<lambda>t. t \<noteq> []) (map trim (brandRequiredTerms cfg)) @
           (if playstoreAppId cfg \<noteq> []
            then [playstoreAppId cfg, ''play.google.com/store/apps/details?id='' @ playstoreAppId cfg]
            else []) @
           (if appstoreAppId cfg \<noteq> []
            then [''id'' @ appstoreAppId cfg, ''apps.apple.com/app/id'' @ appstoreAppId cfg]
            else []))"

definition getStrongBrandAnchors :: "config \<Rightarrow> string list" where
  "getStrongBrandAnchors cfg =
     filter (\<lambda>term.
               let normalized = toLowerCase term
               in str_includes normalized ''.'' \<or> str_includes normalized ''/'' \<or>
                  startsWith normalized ''id'' \<or> str_includes normalized ''play.google.com'' \<or>
                  str_includes normalized ''apps.apple.com'')
       (getBrandAnchors cfg)"

text \<open>\<open>terms.map(normalize).filter(Boolean)\<close> and \<open>terms.some(term => haystack.includes(term))\<close>.\<close>

definition normalized_terms :: "string list \<Rightarrow> string list" where
  "normalized_terms terms = filter (\<lambda>t. t \<noteq> []) (map toLowerCase terms)"

definition some_included :: "string \<Rightarrow> string list \<Rightarrow> bool" where
  "some_included haystack terms = list_ex (\<lambda>term. str_includes haystack term) terms"

definition matchesBrand :: "config \<Rightarrow> string option \<Rightarrow> bool" where
  "matchesBrand cfg input =
     (case input of
        None \<Rightarrow> False
      | Some t \<Rightarrow>
          if t = [] then False
          else
            let haystack = toLowerCase t;
                strong = normalized_terms (getStrongBrandAnchors cfg);
                required = normalized_terms (getBrandAnchors cfg);
                search = normalized_terms (searchTerms cfg)
            in if brandStrict cfg \<and> strong \<noteq> [] then some_included haystack strong
               else if required \<noteq> [] then some_included haystack required
               else if search \<noteq> [] then some_included haystack search
               else False)"

definition matchesBrandBalanced :: "config \<Rightarrow> string option \<Rightarrow> string list \<Rightarrow> bool" where
  "matchesBrandBalanced cfg input contextKeywords =
     (case input of
        None \<Rightarrow> False
      | Some t \<Rightarrow>
          if t = [] then False
          else
            let haystack = toLowerCase t
            in if matchesBrand cfg (Some haystack) then True
               else if \<not> str_includes haystack ''matiks'' then False
               else list_ex (\<lambda>keyword. str_includes haystack (toLowerCase keyword)) contextKeywords)"

section \<open>Regular expressions of the exclusion list\<close>

text \<open>
  The constructs the eight exclusion patterns use: a literal, the word boundary \<open>\b\<close>,
  \<open>\s*\<close>, \<open>[\-\s]?\<close>, sequence and alternative. \<open>rx_ends r s i\<close> lists the positions at
  which a match of \<open>r\<close> that starts at position \<open>i\<close> of \<open>s\<close> can end. \<open>rx_test\<close> is
  \<open>RegExp.prototype.test\<close> for a pattern with the flag \<open>i\<close> and without the flag \<open>g\<close>:
  the literals are in lower case and the subject is lowered.
\<close>

datatype rx = Lit string | WB | Spaces | OptDashSpace | Seq rx rx | Alt rx rx

definition isWordChar :: "char \<Rightarrow> bool" where
  "isWordChar c =
     (let n = (of_char c :: nat)
      in (48 \<le> n \<and> n \<le> 57) \<or> (65 \<le> n \<and> n \<le> 90) \<or> n = 95 \<or> (97 \<le> n \<and> n \<le> 122))"

definition wordAt :: "string \<Rightarrow> nat \<Rightarrow> bool" where
  "wordAt s i = (i < length s \<and> isWordChar (s ! i))"

fun rx_ends :: "rx \<Rightarrow> string \<Rightarrow> nat \<Rightarrow> nat list" where
  "rx_ends (Lit w) s i = (if take (length w) (drop i s) = w then [i + length w] else [])"
| "rx_ends WB s i = (if wordAt s i \<noteq> (0 < i \<and> wordAt s (i - 1)) then [i] else [])"
| "rx_ends Spaces s i = map (\<lambda>k. i + k) [0..<Suc (length (takeWhile isWhiteSpace (drop i s)))]"
| "rx_ends OptDashSpace s i =
     (if i < length s \<and> (s ! i = CHR ''-'' \<or> isWhiteSpace (s ! i)) then [i + 1, i] else [i])"
| "rx_ends (Seq a b) s i = concat (map (rx_ends b s) (rx_ends a s i))"
| "rx_ends (Alt a b) s i = rx_ends a s i @ rx_ends b s i"

definition rx_test :: "rx \<Rightarrow> string \<Rightarrow> bool" where
  "rx_test r s =
     (let t = toLowerCase s in list_ex (\<lambda>i. rx_ends r t i \<noteq> []) [0..<Suc (length t)])"

primrec alts :: "rx \<Rightarrow> rx list \<Rightarrow> rx" where
  "alts r [] = r"
| "alts r (x # xs) = Alt r (alts x xs)"

primrec seqs :: "rx \<Rightarrow> rx list \<Rightarrow> rx" where
  "seqs r [] = r"
| "seqs r (x # xs) = Seq r (seqs x xs)"

text \<open>\<open>\b(w1|w2|...)\b\<close> for alternatives \<open>r\<close>, \<open>rs\<close>.\<close>

definition word_of :: "rx \<Rightarrow> rx list \<Rightarrow> rx" where
  "word_of r rs = seqs WB [alts r rs, WB]"

section \<open>Reddit scraper: relevance (src/scrapers/reddit.ts)\<close>

definition excludeSubreddits :: "string list" where
  "excludeSubreddits =
     [''philippines'', ''phr4r'', ''casualph'', ''alasjuicy'', ''phinvest'', ''phcareers'',
      ''phgonewild'', ''phclassifieds'', ''offmychestph'', ''phremix'', ''phmoneysaving'']"

definition brandSubredditSet :: "config \<Rightarrow> string list" where
  "brandSubredditSet cfg = uniq (filter (\<lambda>t. t \<noteq> []) (map toLowerCase (brandSubreddits cfg)))"

definition excludePatterns :: "rx list" where
  "excludePatterns =
     [word_of (Lit ''pinoy'')
        (map Lit [''pinay'', ''tagalog'', ''pilipinas'', ''philippines'', ''filipino'', ''filipina'']),
      word_of (Lit ''kuya'')
        (map Lit [''ate'', ''bata'', ''galing'', ''sarap'', ''talaga'', ''kasi'', ''parang'', ''yung'',
                  ''naman'', ''lang'', ''dito'', ''tayo'', ''siya'', ''basta'', ''orens'', ''pogi'']),
      word_of (Lit ''pupcet'')
        (map Lit [''pupc'', ''pup'', ''ust'', ''dlsu'', ''admu'', ''ateneo'']
         @ [seqs (Lit ''la'') [Spaces, Lit ''salle'']]),
      seqs WB [Lit ''matik'', Spaces,
               alts (Lit ''dribble'')
                 (map Lit [''shoot'', ''shot'', ''pass'', ''ball'', ''basketball'', ''hoop'', ''three'',
                           ''score'']),
               WB],
      word_of (Lit ''tattoo'')
        (map Lit [''tattooist'', ''inked'', ''ink'']
         @ [seqs (Lit ''ritual'') [Spaces, Lit ''tattoo''], seqs (Lit ''matt'') [Spaces, Lit ''matik'']]),
      word_of (seqs (Lit ''counter'') [OptDashSpace, Lit ''strike''])
        ([Lit ''csgo'', Lit ''cs2'',
          seqs (Lit ''hunger'') [Spaces, Lit ''games'', Spaces, Lit ''server''], Lit ''thorius'']),
      alts (seqs WB [Lit ''matika'', alts (Lit ''ne'') (map Lit [''ru'', ''ko'', ''mi''])])
        [Lit ''fukuki'', seqs (Lit ''lunaticmons'') [WB]],
      word_of (seqs (Lit ''dream'') [Spaces, Lit ''school''])
        (map Lit [''horoscope'', ''zodiac'', ''astrology'', ''superstition''])]"

definition contextKeywords :: "string list" where
  "contextKeywords =
     [''app'', ''game'', ''math'', ''mental'', ''brain'', ''puzzle'', ''duel'', ''streak'',
      ''android'', ''ios'', ''download'', ''play store'', ''app store'', ''mobile'',
      ''arithmetic'', ''calculation'', ''speed'', ''training'', ''challenge'', ''leaderboard'',
      ''score'', ''level'', ''addicted'', ''playing'', ''installed'', ''tried'', ''recommended'']"

text \<open>The text \<open>isRelevant\<close> matches against: both texts and the URL, in lower case.\<close>

definition combined_text :: "string \<Rightarrow> string \<Rightarrow> string option \<Rightarrow> string" where
  "combined_text text1 text2 url = toLowerCase (text1 @ '' '' @ text2 @ '' '' @ or_else url [])"

definition isRelevant :: "config \<Rightarrow> string \<Rightarrow> string \<Rightarrow> string \<Rightarrow> string option \<Rightarrow> bool" where
  "isRelevant cfg text1 text2 subreddit url =
     (let sub = toLowerCase subreddit
      in if sub \<in> set (brandSubredditSet cfg) then True
         else if sub \<in> set excludeSubreddits then False
         else
           let combined = combined_text text1 text2 url
           in if brandStrict cfg then matchesBrand cfg (Some combined)
              else if (if brandBalanced cfg
                       then \<not> matchesBrandBalanced cfg (Some combined) contextKeywords
                       else \<not> matchesBrand cfg (Some combined))
              then False
              else \<not> list_ex (\<lambda>pattern. rx_test pattern combined) excludePatterns)"

section \<open>Reddit scraper: data and state (src/scrapers/reddit.ts)\<close>

text \<open>
  \<open>post_preview\<close> is \<open>preview.images[0].source.url\<close>; \<open>created_utc\<close> is in seconds. An
  empty \<open>name\<close> stands for an absent one.
\<close>

record RedditPost =
  post_id :: string
  post_name :: string
  post_title :: string
  post_author :: string
  post_subreddit :: string
  post_permalink :: string
  post_selftext :: string
  post_score :: int
  post_num_comments :: int
  post_created_utc :: int
  post_url :: "string option"
  post_preview :: "string option"

record RedditComment =
  c_id :: string
  c_name :: string
  c_author :: string
  c_body :: "string option"
  c_score :: int
  c_created_utc :: int
  c_permalink :: string
  c_subreddit :: string

record ScrapeStats =
  apiCalls :: nat
  rateLimitHits :: nat
  postsFound :: nat
  commentsFound :: nat
  duplicatesSkipped :: nat
  filteredOut :: nat
  saved :: nat

text \<open>
  The scraper object, the buffer of the run, the clock (\<open>Date.now()\<close>, in milliseconds),
  the database, and the log lines that open a phase or close the run.
\<close>

record rstate =
  seenIds :: "string set"
  seenContent :: "string set"
  stats :: ScrapeStats
  rateLimiter :: ProductionRateLimiter
  startTime :: real
  maxDuration :: real
  clock :: real
  buffer :: "Mention list"
  database :: db
  logs :: "string list"

text \<open>
  A method that may throw: the result is the value it returns or the message of the
  error it throws, and the state as the method left it (JavaScript undoes nothing when
  an exception passes).
\<close>

type_synonym 'a act = "rstate \<Rightarrow> (string + 'a) \<times> rstate"

definition act_bind :: "'a act \<Rightarrow> ('a \<Rightarrow> 'b act) \<Rightarrow> 'b act" where
  "act_bind m f s = (case m s of (Inl e, s') \<Rightarrow> (Inl e, s') | (Inr a, s') \<Rightarrow> f a s')"

definition act_then :: "'a act \<Rightarrow> 'b act \<Rightarrow> 'b act" where
  "act_then m n = act_bind m (\<lambda>a. n)"

text \<open>\<open>try { m } catch { }\<close>: the error is dropped, the state stays as \<open>m\<close> left it.\<close>

definition act_try :: "unit act \<Rightarrow> unit act" where
  "act_try m s = (case m s of (Inl e, s') \<Rightarrow> (Inr (), s') | (Inr a, s') \<Rightarrow> (Inr (), s'))"

text \<open>\<open>for (const x of xs) { if (stop()) break; body(x) }\<close>.\<close>

fun for_until :: "(rstate \<Rightarrow> bool) \<Rightarrow> ('x \<Rightarrow> unit act) \<Rightarrow> 'x list \<Rightarrow> unit act" where
  "for_until stop body [] s = (Inr (), s)"
| "for_until stop body (x # xs) s =
     (if stop s then (Inr (), s)
      else (case body x s of
              (Inl e, s') \<Rightarrow> (Inl e, s')
            | (Inr u, s') \<Rightarrow> for_until stop body xs s'))"

definition isTimeUp :: "rstate \<Rightarrow> bool" where
  "isTimeUp s = (maxDuration s < clock s - startTime s)"

definition info :: "string \<Rightarrow> rstate \<Rightarrow> rstate" where
  "info line s = s\<lparr>logs := logs s @ [line]\<rparr>"

section \<open>Reddit scraper: transformers and the dedup ledger\<close>

text \<open>\<open>s.replace(/&amp;/g, '&')\<close>.\<close>

fun replace_amp :: "string \<Rightarrow> string" where
  "replace_amp (a # b # c # d # e # rest) =
     (if [a, b, c, d, e] = ''&amp;'' then CHR ''&'' # replace_amp rest
      else a # replace_amp (b # c # d # e # rest))"
| "replace_amp s = s"

text \<open>
  \<open>new Date(ms).toISOString()\<close> throws a \<open>RangeError\<close> outside the range of time values,
  \<open>8.64e15\<close> milliseconds either side of the epoch.
\<close>

definition toISOString :: "int \<Rightarrow> string + int" where
  "toISOString ms = (if \<bar>ms\<bar> \<le> 8640000000000000 then Inr ms else Inl ''Invalid time value'')"

definition created_at_of :: "real \<Rightarrow> int \<Rightarrow> string + int" where
  "created_at_of t created_utc = toISOString (if created_utc \<noteq> 0 then created_utc * 1000 else \<lfloor>t\<rfloor>)"

definition permalink_url :: "string \<Rightarrow> string" where
  "permalink_url permalink =
     (if startsWith permalink ''http'' then permalink else ''https://reddit.com'' @ permalink)"

definition author_url_of :: "string \<Rightarrow> string option" where
  "author_url_of author =
     (if author \<noteq> [] \<and> author \<noteq> ''[deleted]'' then Some (''https://reddit.com/u/'' @ author) else None)"

text \<open>
  \<open>transformPost\<close> at clock reading \<open>t\<close>. The camera sign before the preview URL is
  written as its four UTF-8 bytes.
\<close>

definition transformPost :: "real \<Rightarrow> RedditPost \<Rightarrow> string + Mention" where
  "transformPost t post =
     (let content0 = post_title post;
          content1 =
            (if post_selftext post \<noteq> [] \<and> post_selftext post \<noteq> ''[removed]'' \<and>
                post_selftext post \<noteq> ''[deleted]''
             then content0 @ [CHR 0x0A, CHR 0x0A] @ post_selftext post else content0);
          content2 =
            (case post_preview post of
               None \<Rightarrow> content1
             | Some u \<Rightarrow>
                 if u = [] then content1
                 else content1 @ [CHR 0x0A, CHR 0x0A, CHR 0xF0, CHR 0x9F, CHR 0x93, CHR 0xB7, CHR '' '']
                        @ replace_amp u)
      in case created_at_of t (post_created_utc post) of
           Inl e \<Rightarrow> Inl e
         | Inr created \<Rightarrow>
             Inr \<lparr>m_platform_id = 1,
                  m_external_id = post_name post,
                  m_author = Some (if post_author post = [] then ''[deleted]'' else post_author post),
                  m_author_url = author_url_of (post_author post),
                  m_content = trim content2,
                  m_url = Some (permalink_url (post_permalink post)),
                  m_engagement_likes = post_score post,
                  m_engagement_comments = post_num_comments post,
                  m_engagement_shares = 0,
                  m_sentiment_score = None,
                  m_sentiment_label = None,
                  m_created_at = created\<rparr>)"

definition transformComment :: "real \<Rightarrow> RedditComment \<Rightarrow> string + Mention" where
  "transformComment t comment =
     (case created_at_of t (c_created_utc comment) of
        Inl e \<Rightarrow> Inl e
      | Inr created \<Rightarrow>
          Inr \<lparr>m_platform_id = 1,
               m_external_id = c_name comment,
               m_author = Some (if c_author comment = [] then ''[deleted]'' else c_author comment),
               m_author_url = author_url_of (c_author comment),
               m_content = (case c_body comment of None \<Rightarrow> [] | Some b \<Rightarrow> trim b),
               m_url = Some (permalink_url (c_permalink comment)),
               m_engagement_likes = c_score comment,
               m_engagement_comments = 0,
               m_engagement_shares = 0,
               m_sentiment_score = None,
               m_sentiment_label = None,
               m_created_at = created\<rparr>)"

text \<open>The content fingerprints of \<open>addPost\<close> and \<open>addComment\<close>.\<close>

definition postKey :: "RedditPost \<Rightarrow> string" where
  "postKey post = toLowerCase (post_title post @ ''|'' @ post_author post)"

definition commentKey :: "RedditComment \<Rightarrow> string" where
  "commentKey comment =
     toLowerCase (''comment|'' @ (case c_body comment of None \<Rightarrow> ''undefined'' | Some b \<Rightarrow> take 100 b)
                  @ ''|'' @ c_author comment)"

definition countDuplicate :: "rstate \<Rightarrow> rstate" where
  "countDuplicate s = s\<lparr>stats := (stats s)\<lparr>duplicatesSkipped := duplicatesSkipped (stats s) + 1\<rparr>\<rparr>"

definition countFiltered :: "rstate \<Rightarrow> rstate" where
  "countFiltered s = s\<lparr>stats := (stats s)\<lparr>filteredOut := filteredOut (stats s) + 1\<rparr>\<rparr>"

text \<open>\<open>addPost(post, buffer)\<close>; \<open>None\<close> is a \<open>null\<close> post.\<close>

definition addPost :: "config \<Rightarrow> RedditPost option \<Rightarrow> bool act" where
  "addPost cfg post s =
     (case post of
        None \<Rightarrow> (Inr False, s)
      | Some p \<Rightarrow>
          if post_name p = [] then (Inr False, s)
          else if post_name p \<in> seenIds s then (Inr False, countDuplicate s)
          else if postKey p \<in> seenContent s then (Inr False, countDuplicate s)
          else if \<not> isRelevant cfg (post_title p) (post_selftext p) (post_subreddit p)
                     (Some (or_else (post_url p) (post_permalink p)))
          then (Inr False, countFiltered s)
          else
            let s1 = s\<lparr>seenIds := insert (post_name p) (seenIds s),
                       seenContent := insert (postKey p) (seenContent s),
                       stats := (stats s)\<lparr>postsFound := postsFound (stats s) + 1\<rparr>\<rparr>
            in case transformPost (clock s1) p of
                 Inl e \<Rightarrow> (Inl e, s1)
               | Inr m \<Rightarrow> (Inr True, s1\<lparr>buffer := buffer s1 @ [m]\<rparr>))"

definition addComment :: "config \<Rightarrow> RedditComment option \<Rightarrow> bool act" where
  "addComment cfg comment s =
     (case comment of
        None \<Rightarrow> (Inr False, s)
      | Some c \<Rightarrow>
          if c_name c = [] then (Inr False, s)
          else if c_name c \<in> seenIds s then (Inr False, countDuplicate s)
          else if commentKey c \<in> seenContent s then (Inr False, countDuplicate s)
          else if \<not> isRelevant cfg (or_else (c_body c) []) [] (c_subreddit c) (Some (c_permalink c))
          then (Inr False, countFiltered s)
          else
            let s1 = s\<lparr>seenIds := insert (c_name c) (seenIds s),
                       seenContent := insert (commentKey c) (seenContent s),
                       stats := (stats s)\<lparr>commentsFound := commentsFound (stats s) + 1\<rparr>\<rparr>
            in case transformComment (clock s1) c of
                 Inl e \<Rightarrow> (Inl e, s1)
               | Inr m \<Rightarrow> (Inr True, s1\<lparr>buffer := buffer s1 @ [m]\<rparr>))"

section \<open>Reddit scraper: network (src/scrapers/reddit.ts)\<close>

text \<open>
  The JSON endpoints, by what the URL is built from, the last component being the
  \<open>after\<close> token: search, search within a subreddit, comment search, a subreddit's
  listing (\<open>new\<close> or \<open>hot\<close>) and a subreddit's comments.
\<close>

datatype request =
    SearchReq string string string "string option"
  | SubredditSearchReq string "string option"
  | CommentSearchReq string "string option"
  | ListingReq string string "string option"
  | SubredditCommentsReq string "string option"

datatype child = T3 "RedditPost option" | T1 "RedditComment option" | OtherKind

record listing =
  children :: "child list"
  after :: "string option"

text \<open>
  What one \<open>fetch\<close> gives: it threw, status 429, another status that is not \<open>ok\<close>, a
  JSON body (\<open>None\<close> for a body without \<open>data\<close>), or an \<open>ok\<close> response whose body does
  not parse.
\<close>

datatype http_outcome = FetchThrew | Status429 | StatusNotOk | OkJson "listing option" | OkBadJson

datatype archive_item = APost RedditPost | AComment RedditComment | ANeither

datatype archive_result = ArchiveThrew | ArchiveNotOk | ArchiveItems "archive_item list"

datatype page_result = PageThrew | PagePosts "RedditPost list"

datatype browser_result = BrowserFailed | BrowserPages "nat \<Rightarrow> page_result \<times> real"

text \<open>
  The world of a Reddit run: the configuration, the analyzer (the package's \<open>analyze\<close>
  returns on every string), the answer to the \<open>n\<close>-th API call and the time it takes,
  the answer of the \<open>i\<close>-th archive endpoint (its items as \<open>archiveToPost\<close> and
  \<open>archiveToComment\<close> make them) and the browser with the posts \<open>extractPostsFromPage\<close>
  finds on the \<open>i\<close>-th page. A sleep takes the time asked for.
\<close>

record renv =
  r_cfg :: config
  r_analyze :: "string \<Rightarrow> analysis"
  r_http :: "nat \<Rightarrow> request \<Rightarrow> http_outcome \<times> real"
  r_archive :: "nat \<Rightarrow> archive_result \<times> real"
  r_browser :: browser_result

definition sleep :: "real \<Rightarrow> rstate \<Rightarrow> rstate" where
  "sleep ms s = s\<lparr>clock := clock s + ms\<rparr>"

text \<open>
  \<open>fetchWithRetry(url, maxRetries)\<close> with \<open>k\<close> attempts left. It returns \<open>null\<close> (\<open>None\<close>)
  or the JSON body and never throws.
\<close>

fun fetchAttempts :: "renv \<Rightarrow> request \<Rightarrow> nat \<Rightarrow> rstate \<Rightarrow> listing option \<times> rstate" where
  "fetchAttempts env req 0 s = (None, s)"
| "fetchAttempts env req (Suc k) s =
     (let (lim, t) = acquire (clock s) 0 (rateLimiter s);
          s1 = s\<lparr>rateLimiter := lim, clock := t,
                   stats := (stats s)\<lparr>apiCalls := apiCalls (stats s) + 1\<rparr>\<rparr>;
          (outcome, latency) = r_http env (apiCalls (stats s1)) req;
          s2 = sleep latency s1
      in case outcome of
           Status429 \<Rightarrow>
             let s3 = s2\<lparr>stats := (stats s2)\<lparr>rateLimitHits := rateLimitHits (stats s2) + 1\<rparr>,
                        rateLimiter := onRateLimit (rateLimiter s2)\<rparr>
             in fetchAttempts env req k (sleep (getBackoffTime (rateLimiter s3)) s3)
         | StatusNotOk \<Rightarrow> fetchAttempts env req k (sleep 1000 s2)
         | OkJson data \<Rightarrow> (data, s2\<lparr>rateLimiter := onSuccess (rateLimiter s2)\<rparr>)
         | OkBadJson \<Rightarrow>
             let s3 = s2\<lparr>rateLimiter := onSuccess (rateLimiter s2)\<rparr>
             in if k = 0 then (None, s3) else fetchAttempts env req k (sleep 2000 s3)
         | FetchThrew \<Rightarrow> if k = 0 then (None, s2) else fetchAttempts env req k (sleep 2000 s2))"

definition fetchWithRetry :: "renv \<Rightarrow> request \<Rightarrow> rstate \<Rightarrow> listing option \<times> rstate" where
  "fetchWithRetry env req s = fetchAttempts env req 3 s"

text \<open>
  The loop over the children of a page: \<open>addPost\<close> for the children of kind \<open>t3\<close> when
  \<open>posts\<close> is set, \<open>addComment\<close> for those of kind \<open>t1\<close> otherwise. It returns the number
  of children accepted.
\<close>

fun addChildren :: "config \<Rightarrow> bool \<Rightarrow> child list \<Rightarrow> nat act" where
  "addChildren cfg posts [] s = (Inr 0, s)"
| "addChildren cfg posts (c # cs) s =
     (case (case c of
              T3 p \<Rightarrow> if posts then addPost cfg p s else (Inr False, s)
            | T1 cm \<Rightarrow> if posts then (Inr False, s) else addComment cfg cm s
            | OtherKind \<Rightarrow> (Inr False, s)) of
        (Inl e, s') \<Rightarrow> (Inl e, s')
      | (Inr b, s') \<Rightarrow>
          (case addChildren cfg posts cs s' of
             (Inl e, s'') \<Rightarrow> (Inl e, s'')
           | (Inr n, s'') \<Rightarrow> (Inr (if b then Suc n else n), s'')))"

text \<open>
  The pagination loop shared by \<open>fetchAllPagesForSearch\<close>, \<open>searchSubreddit\<close>,
  \<open>searchComments\<close>, \<open>fetchSubredditListings\<close> and \<open>fetchSubredditComments\<close>:
  \<open>while (pageNum < maxPages && !this.isTimeUp())\<close>, the request built from the \<open>after\<close>
  token. It returns the number of children accepted.
\<close>

function paginate ::
  "renv \<Rightarrow> (string option \<Rightarrow> request) \<Rightarrow> nat \<Rightarrow> bool \<Rightarrow> string option \<Rightarrow> nat \<Rightarrow> nat \<Rightarrow> nat act" where
  "paginate env mk maxPages' posts after' pageNum found s =
     (if \<not> (pageNum < maxPages' \<and> \<not> isTimeUp s) then (Inr found, s)
      else
        (case fetchWithRetry env (mk after') s of
           (None, s1) \<Rightarrow> (Inr found, s1)
         | (Some data, s1) \<Rightarrow>
             if children data = [] then (Inr found, s1)
             else
               (case addChildren (r_cfg env) posts (children data) s1 of
                  (Inl e, s2) \<Rightarrow> (Inl e, s2)
                | (Inr n, s2) \<Rightarrow>
                    (case after data of
                       None \<Rightarrow> (Inr (found + n), s2)
                     | Some a \<Rightarrow>
                         if a = [] then (Inr (found + n), s2)
                         else paginate env mk maxPages' posts (Some a) (pageNum + 1) (found + n) s2))))"
  by pat_completeness auto
termination
  by (relation "measure (\<lambda>(env, mk, maxPages', posts, after', pageNum, found, s). maxPages' - pageNum)") auto

definition ignore :: "'a act \<Rightarrow> unit act" where
  "ignore m = act_bind m (\<lambda>a s. (Inr (), s))"

definition fetchAllPagesForSearch :: "renv \<Rightarrow> string \<Rightarrow> string \<Rightarrow> string \<Rightarrow> unit act" where
  "fetchAllPagesForSearch env query sort' time =
     ignore (paginate env (SearchReq query sort' time) 10 True None 0 0)"

definition searchSubreddit :: "renv \<Rightarrow> string \<Rightarrow> nat act" where
  "searchSubreddit env subreddit = paginate env (SubredditSearchReq subreddit) 5 True None 0 0"

definition searchComments :: "renv \<Rightarrow> string \<Rightarrow> unit act" where
  "searchComments env query = ignore (paginate env (CommentSearchReq query) 5 False None 0 0)"

definition fetchSubredditListings :: "renv \<Rightarrow> string \<Rightarrow> string \<Rightarrow> unit act" where
  "fetchSubredditListings env subreddit sort' =
     ignore (paginate env (ListingReq subreddit sort') 10 True None 0 0)"

definition fetchSubredditComments :: "renv \<Rightarrow> string \<Rightarrow> unit act" where
  "fetchSubredditComments env subreddit =
     ignore (paginate env (SubredditCommentsReq subreddit) 5 False None 0 0)"

section \<open>Reddit scraper: flush and phases\<close>

text \<open>
  \<open>flushBuffer(buffer)\<close>: the sentiment of every buffered mention, \<open>insertMentions\<close>, and
  the buffer emptied.
\<close>

definition withSentiment :: "renv \<Rightarrow> Mention \<Rightarrow> string + Mention" where
  "withSentiment env m =
     (case analyzeSentiment (\<lambda>t. Inr (r_analyze env t)) (Some (m_content m)) of
        Inl e \<Rightarrow> Inl e
      | Inr sentiment \<Rightarrow>
          Inr (m\<lparr>m_sentiment_score := Some (sr_score sentiment),
                 m_sentiment_label := Some (sr_label sentiment)\<rparr>))"

fun withSentiments :: "renv \<Rightarrow> Mention list \<Rightarrow> string + Mention list" where
  "withSentiments env [] = Inr []"
| "withSentiments env (m # ms) =
     (case withSentiment env m of
        Inl e \<Rightarrow> Inl e
      | Inr m' \<Rightarrow> (case withSentiments env ms of Inl e \<Rightarrow> Inl e | Inr ms' \<Rightarrow> Inr (m' # ms')))"

definition flushBuffer :: "renv \<Rightarrow> unit act" where
  "flushBuffer env s =
     (if buffer s = [] then (Inr (), s)
      else
        (case withSentiments env (buffer s) of
           Inl e \<Rightarrow> (Inl e, s)
         | Inr ms \<Rightarrow>
             let (n, d) = insertMentions ms (database s)
             in (Inr (), s\<lparr>stats := (stats s)\<lparr>saved := saved (stats s) + n\<rparr>,
                          buffer := [], database := d\<rparr>)))"

definition flushIfFull :: "renv \<Rightarrow> unit act" where
  "flushIfFull env s = (if 25 \<le> length (buffer s) then flushBuffer env s else (Inr (), s))"

definition phase0_BrandSubredditListings :: "renv \<Rightarrow> unit act" where
  "phase0_BrandSubredditListings env s =
     (if isTimeUp s then (Inr (), s)
      else if brandSubredditSet (r_cfg env) = [] then (Inr (), s)
      else
        for_until isTimeUp
          (\<lambda>sub.
             act_then (fetchSubredditListings env sub ''new'')
               (act_then (fetchSubredditListings env sub ''hot'')
                  (act_then (fetchSubredditComments env sub) (flushIfFull env))))
          (brandSubredditSet (r_cfg env))
          (info ''PHASE 0: Brand Subreddit Listings'' s))"

definition phase1_terms :: "config \<Rightarrow> string list" where
  "phase1_terms cfg =
     uniq (filter (\<lambda>t. t \<noteq> [])
       ((if searchTerms cfg \<noteq> [] then searchTerms cfg else [''matiks'']) @
        getBrandAnchors cfg @
        [[CHR 0x22] @ ''matiks'' @ [CHR 0x22], [CHR 0x22] @ ''matiks app'' @ [CHR 0x22],
         [CHR 0x22] @ ''matiks game'' @ [CHR 0x22], [CHR 0x22] @ ''matiks.in'' @ [CHR 0x22],
         ''matiks'', ''matiks app'', ''matiks game'', ''matiks.in'', ''matiks math'',
         ''matiks mental math'', ''matiks brain'', ''matiks brain training'', ''matiks puzzle'',
         ''matiks duel'', ''matiks duels'', ''matiks streak'', ''matiks challenge'',
         ''matiks leaderboard'', ''matiks android'', ''matiks ios'', ''matiks iphone'',
         ''matiks download'', ''matiks play store'', ''matiks app store'', ''matiks mobile'',
         ''matik app'', ''matik game'', ''matics app'']))"

definition phase1_ExhaustiveApiSearch :: "renv \<Rightarrow> bool \<Rightarrow> unit act" where
  "phase1_ExhaustiveApiSearch env isIncremental s =
     (if isTimeUp s then (Inr (), s)
      else
        let sortOptions = (if isIncremental then [''new'', ''relevance'']
                           else [''relevance'', ''new'', ''top'', ''comments'']);
            timeFilters = (if isIncremental then [''day'', ''week'']
                           else [''all'', ''year'', ''month'', ''week'', ''day''])
        in for_until isTimeUp
             (\<lambda>term.
                act_then
                  (for_until (\<lambda>s'. False)
                     (\<lambda>sort'. for_until isTimeUp (\<lambda>time. fetchAllPagesForSearch env term sort' time)
                                 timeFilters)
                     sortOptions)
                  (flushIfFull env))
             (phase1_terms (r_cfg env))
             (info ''PHASE 1: Exhaustive API Search'' s))"

definition phase2_subreddits :: "string list" where
  "phase2_subreddits =
     [''androidapps'', ''iosapps'', ''AppHookup'', ''apps'', ''apphookup'',
      ''androidgaming'', ''iosgaming'', ''MobileGaming'', ''IndieGaming'', ''incremental_games'',
      ''gamedev'', ''playmygame'', ''gaming'',
      ''math'', ''learnmath'', ''matheducation'', ''mathematics'', ''askmath'',
      ''education'', ''edtech'', ''homeschool'', ''teachers'',
      ''braingames'', ''puzzles'', ''braintraining'', ''mentalmath'',
      ''cognitivescience'', ''Nootropics'',
      ''productivity'', ''selfimprovement'', ''getdisciplined'', ''DecidingToBeBetter'',
      ''india'', ''indiasocial'', ''IndianGaming'', ''developersIndia'',
      ''bangalore'', ''mumbai'', ''delhi'', ''hyderabad'', ''chennai'',
      ''Android'', ''iphone'', ''apple'', ''google'']"

definition phase2_SubredditSearches :: "renv \<Rightarrow> unit act" where
  "phase2_SubredditSearches env s =
     (if isTimeUp s then (Inr (), s)
      else
        for_until isTimeUp
          (\<lambda>sub. act_then (searchSubreddit env sub) (flushIfFull env))
          phase2_subreddits
          (info ''PHASE 2: Subreddit-Specific Searches'' s))"

definition phase3_terms :: "config \<Rightarrow> string list" where
  "phase3_terms cfg =
     uniq (filter (\<lambda>t. t \<noteq> [])
       (getBrandAnchors cfg @
        [''matiks'', [CHR 0x22] @ ''matiks'' @ [CHR 0x22], ''matiks app'', ''matiks.in'',
         ''matiks game'', ''matiks math'']))"

definition phase3_CommentSearch :: "renv \<Rightarrow> unit act" where
  "phase3_CommentSearch env s =
     (if isTimeUp s then (Inr (), s)
      else
        act_then
          (for_until isTimeUp (\<lambda>term. searchComments env term) (phase3_terms (r_cfg env)))
          (flushBuffer env)
          (info ''PHASE 3: Comment Search'' s))"

text \<open>
  One archive endpoint: the outer \<open>try\<close> drops whatever the fetch or an \<open>addPost\<close> or
  \<open>addComment\<close> throws; then one second of sleep.
\<close>

fun addArchiveItems :: "config \<Rightarrow> archive_item list \<Rightarrow> unit act" where
  "addArchiveItems cfg [] s = (Inr (), s)"
| "addArchiveItems cfg (i # is) s =
     (case (case i of
              APost p \<Rightarrow> addPost cfg (Some p) s
            | AComment c \<Rightarrow> addComment cfg (Some c) s
            | ANeither \<Rightarrow> (Inr False, s)) of
        (Inl e, s') \<Rightarrow> (Inl e, s')
      | (Inr b, s') \<Rightarrow> addArchiveItems cfg is s')"

definition archiveEndpoint :: "renv \<Rightarrow> nat \<Rightarrow> unit act" where
  "archiveEndpoint env i s =
     (let (result, latency) = r_archive env i;
          s1 = sleep latency s;
          (r, s2) =
            act_try (\<lambda>s'. case result of
                             ArchiveThrew \<Rightarrow> (Inl ''fetch failed'', s')
                           | ArchiveNotOk \<Rightarrow> (Inr (), s')
                           | ArchiveItems is \<Rightarrow> addArchiveItems (r_cfg env) is s') s1
      in (Inr (), sleep 1000 s2))"

definition phase4_HistoricalArchives :: "renv \<Rightarrow> bool \<Rightarrow> unit act" where
  "phase4_HistoricalArchives env isIncremental s =
     (if isTimeUp s then (Inr (), s)
      else if isIncremental
      then (Inr (), info ''PHASE 4: Historical Archives (Skipped for incremental run)'' s)
      else
        act_then
          (for_until isTimeUp (archiveEndpoint env)
             [0..<6 + 2 * length (getBrandAnchors (r_cfg env))])
          (flushBuffer env)
          (info ''PHASE 4: Historical Archives (Pushshift)'' s))"

text \<open>
  One page of the browser pass: load, three seconds, five scrolls of one second, then
  \<open>addPost\<close> for every post extracted; the inner \<open>try\<close> drops what is thrown.
\<close>

fun addPosts :: "config \<Rightarrow> RedditPost list \<Rightarrow> unit act" where
  "addPosts cfg [] s = (Inr (), s)"
| "addPosts cfg (p # ps) s =
     (case addPost cfg (Some p) s of
        (Inl e, s') \<Rightarrow> (Inl e, s')
      | (Inr b, s') \<Rightarrow> addPosts cfg ps s')"

definition browserPage :: "renv \<Rightarrow> (nat \<Rightarrow> page_result \<times> real) \<Rightarrow> nat \<Rightarrow> unit act" where
  "browserPage env pages i =
     act_try (\<lambda>s. let (result, latency) = pages i;
                      s1 = sleep latency s
                  in case result of
                       PageThrew \<Rightarrow> (Inl ''page error'', s1)
                     | PagePosts ps \<Rightarrow> addPosts (r_cfg env) ps (sleep 8000 s1))"

definition phase5_BrowserVerification :: "renv \<Rightarrow> unit act" where
  "phase5_BrowserVerification env s =
     (if isTimeUp s then (Inr (), s)
      else
        act_try
          (\<lambda>s'. case r_browser env of
                   BrowserFailed \<Rightarrow> (Inl ''browser error'', s')
                 | BrowserPages pages \<Rightarrow>
                     for_until isTimeUp (browserPage env pages)
                       [0..<3 + length (getBrandAnchors (r_cfg env))] s')
          (info ''PHASE 5: Browser Verification'' s))"

section \<open>Reddit scraper: the run\<close>

text \<open>The body of the \<open>try\<close> of \<open>run\<close>: the six phases in order, then the final flush.\<close>

definition run_phases :: "renv \<Rightarrow> bool \<Rightarrow> unit act" where
  "run_phases env isIncremental =
     act_then (phase0_BrandSubredditListings env)
       (act_then (phase1_ExhaustiveApiSearch env isIncremental)
          (act_then (phase2_SubredditSearches env)
             (act_then (phase3_CommentSearch env)
                (act_then (phase4_HistoricalArchives env isIncremental)
                   (act_then (phase5_BrowserVerification env) (flushBuffer env))))))"

text \<open>
  The start of \<open>run\<close>: the ledger and the counters are cleared, the mode and the time
  budget follow from the cursor, the run is logged as running. It returns the cursor
  and the id of the log row.
\<close>

definition run_start :: "rstate \<Rightarrow> (ScrapeCursor option \<times> nat) \<times> rstate" where
  "run_start s =
     (let cursor = getScrapeCursor ''reddit'' (database s);
          (logId, d) = logScrapeStart \<lfloor>clock s\<rfloor> ''reddit'' (database s)
      in ((cursor, logId),
          s\<lparr>startTime := clock s, seenIds := {}, seenContent := {},
            stats := \<lparr>apiCalls = 0, rateLimitHits = 0, postsFound = 0, commentsFound = 0,
                      duplicatesSkipped = 0, filteredOut = 0, saved = 0\<rparr>,
            maxDuration := (if cursor \<noteq> None then 5 * 60 * 1000 else 10 * 60 * 1000),
            buffer := [], database := d\<rparr>))"

text \<open>
  \<open>RedditScraper.run\<close>. The \<open>catch\<close> block flushes the buffer, marks the run failed and
  returns; what the flush would throw leaves \<open>run\<close>.
\<close>

definition run :: "renv \<Rightarrow> Mention run_result act" where
  "run env s0 =
     (case run_start s0 of
        ((cursor, logId), s) \<Rightarrow>
          (case run_phases env (cursor \<noteq> None) s of
             (Inr u, s1) \<Rightarrow>
               let s2 = info ''SCRAPE COMPLETE - FINAL STATS'' s1;
                   d2 = (if 0 < saved (stats s2) \<or> cursor = None
                         then updateScrapeCursor \<lfloor>clock s2\<rfloor> ''reddit'' (Some \<lfloor>clock s2\<rfloor>) None (database s2)
                         else database s2);
                   d3 = logScrapeEnd \<lfloor>clock s2\<rfloor> logId success
                          (postsFound (stats s2) + commentsFound (stats s2)) (saved (stats s2)) None d2
               in (Inr \<lparr>items = [], newItems = saved (stats s2), errors = []\<rparr>, s2\<lparr>database := d3\<rparr>)
           | (Inl msg, s1) \<Rightarrow>
               (case flushBuffer env (info (''FATAL ERROR: '' @ msg) s1) of
                  (Inl e, s2) \<Rightarrow> (Inl e, s2)
                | (Inr u, s2) \<Rightarrow>
                    (Inr \<lparr>items = [], newItems = saved (stats s2), errors = [msg]\<rparr>,
                     s2\<lparr>database := logScrapeEnd \<lfloor>clock s2\<rfloor> logId failed
                                      (postsFound (stats s2) + commentsFound (stats s2))
                                      (saved (stats s2)) (Some msg) (database s2)\<rparr>))))"

section \<open>Scheduler (src/scheduler/jobs.ts)\<close>



text \<open>
  The runner of the Reddit job: \<open>new RedditScraper()\<close>, with the field initialisers of
  the class, and its \<open>run\<close>; the clock, the database and the log are the process's.
\<close>

definition newRedditScraper :: "rstate \<Rightarrow> rstate" where
  "newRedditScraper w =
     w\<lparr>seenIds := {}, seenContent := {},
       stats := \<lparr>apiCalls = 0, rateLimitHits = 0, postsFound = 0, commentsFound = 0,
                 duplicatesSkipped = 0, filteredOut = 0, saved = 0\<rparr>,
       rateLimiter := newProductionRateLimiter 25 (clock w),
       startTime := 0, maxDuration := 10 * 60 * 1000, buffer := []\<rparr>"

definition reddit_job :: "renv \<Rightarrow> Mention run_result act" where
  "reddit_job env w = run env (newRedditScraper w)"

section \<open>The cursor contract in the claims' words\<close>

text \<open>
  The maximum timestamp among a list of timestamps, \<open>None\<close> for the empty list; the
  timestamps of the Play Store reviews that carry a date that parses; the watermark a
  platform's cursor holds (\<open>None\<close> without a cursor or a date); and what it is to
  be the identifiers of the \<open>n\<close> most recent of a list of reviews: the identifiers of
  \<open>min n (length revs)\<close> of them, none older than a review left out.
\<close>

definition max_date :: "int list \<Rightarrow> int option" where
  "max_date ts = (if ts = [] then None else Some (Max (set ts)))"

definition valid_dates :: "PlayStoreReviewData list \<Rightarrow> int list" where
  "valid_dates rs = concat (map (\<lambda>r. case pr_date r of Some (Valid t) \<Rightarrow> [t] | _ \<Rightarrow> []) rs)"

definition watermark :: "string \<Rightarrow> db \<Rightarrow> int option" where
  "watermark platform d = (case cursors d platform of None \<Rightarrow> None | Some c \<Rightarrow> last_item_date c)"

text \<open>A maximum that exists and is newer than the watermark, if there is a watermark.\<close>

definition advances :: "int option \<Rightarrow> int option \<Rightarrow> bool" where
  "advances old new =
     (case new of None \<Rightarrow> False | Some n \<Rightarrow> (case old of None \<Rightarrow> True | Some c \<Rightarrow> c < n))"

definition most_recent :: "nat \<Rightarrow> Review list \<Rightarrow> string list \<Rightarrow> bool" where
  "most_recent n revs ids =
     (\<exists>kept dropped.
        mset (kept @ dropped) = mset revs \<and> ids = map rv_external_id kept \<and>
        length kept = min n (length revs) \<and>
        (\<forall>a \<in> set kept. \<forall>b \<in> set dropped. rv_review_date b \<le> rv_review_date a))"

section \<open>Small worlds for concrete evaluation\<close>

text \<open>
  Marketplace runs that find nothing (\<open>quiet\<close>), a database with a cursor for each
  marketplace, and a Play Store API with two reviews, one of them without a date.
\<close>

definition quiet_as_env :: as_env where
  "quiet_as_env =
     \<lparr>as_now = 1700003600000,
      as_feed = (\<lambda>country page. NoEntries),
      as_genId = (\<lambda>country n. ''as-generated''),
      as_browser = (\<lambda>cutoffDate. []),
      as_appIdConfigured = True,
      as_analyze = (\<lambda>t. Inr \<lparr>a_score = 0, a_comparative = 0, a_tokens = []\<rparr>)\<rparr>"

definition quiet_ps_env :: ps_env where
  "quiet_ps_env =
     \<lparr>ps_now = 1700003600000,
      ps_api = (\<lambda>sort' page. ApiPage [] False),
      ps_browser = (\<lambda>knownIds isIncremental. []),
      ps_appIdConfigured = True,
      ps_analyze = (\<lambda>t. Inr \<lparr>a_score = 0, a_comparative = 0, a_tokens = []\<rparr>)\<rparr>"

definition ex_db :: "int \<Rightarrow> int \<Rightarrow> db" where
  "ex_db scraped watermark' =
     \<lparr>cursors =
        [''appstore'' \<mapsto> \<lparr>last_scraped_at = scraped, last_item_date = Some watermark',
                             last_item_ids = Some [''r0'']\<rparr>,
         ''playstore'' \<mapsto> \<lparr>last_scraped_at = scraped, last_item_date = Some watermark',
                              last_item_ids = Some [''p0'']\<rparr>],
      reviews = [], mentions = [], scrape_logs = []\<rparr>"

definition ex_ps_env :: ps_env where
  "ex_ps_env =
     \<lparr>ps_now = 1000,
      ps_api = (\<lambda>sort' page.
         if sort' = NEWEST \<and> page = 0
         then ApiPage
                [\<lparr>api_id = Some ''p1'', api_userName = Some ''bob'', api_date = Some (Valid 400),
                  api_score = Some 4, api_text = Some ''fine'', api_thumbsUp = Some 1,
                  api_version = None, api_replyText = None\<rparr>,
                 \<lparr>api_id = Some ''p2'', api_userName = Some ''cy'', api_date = None,
                  api_score = Some 2, api_text = Some ''meh'', api_thumbsUp = None,
                  api_version = None, api_replyText = None\<rparr>] False
         else ApiFailed),
      ps_browser = (\<lambda>knownIds isIncremental. []),
      ps_appIdConfigured = True,
      ps_analyze = (\<lambda>t. Inr \<lparr>a_score = 0, a_comparative = 0, a_tokens = []\<rparr>)\<rparr>"

subsection \<open>Reddit\<close>

text \<open>
  A post of the brand subreddit, by its name and its \<open>created_utc\<close>; the state of a
  scraper object created at clock reading 0, before a run, over a database; and a
  database that a previous Reddit run left: a cursor and the row of the post \<open>t3_abc\<close>.
\<close>

definition ex_post :: "string \<Rightarrow> string \<Rightarrow> int \<Rightarrow> RedditPost" where
  "ex_post name title created =
     \<lparr>post_id = drop 3 name, post_name = name, post_title = title, post_author = ''alice'',
      post_subreddit = ''matiks'', post_permalink = ''/r/matiks/comments/'' @ drop 3 name,
      post_selftext = [], post_score = 3, post_num_comments = 0, post_created_utc = created,
      post_url = None, post_preview = None\<rparr>"

definition ex_comment :: "string \<Rightarrow> string \<Rightarrow> RedditComment" where
  "ex_comment name body =
     \<lparr>c_id = drop 3 name, c_name = name, c_author = ''bob'', c_body = Some body, c_score = 1,
      c_created_utc = 1700000000, c_permalink = ''/r/matiks/comments/abc/c/'' @ drop 3 name,
      c_subreddit = ''matiks''\<rparr>"

definition ex_rstate :: "real \<Rightarrow> db \<Rightarrow> rstate" where
  "ex_rstate t d =
     \<lparr>seenIds = {}, seenContent = {},
      stats = \<lparr>apiCalls = 0, rateLimitHits = 0, postsFound = 0, commentsFound = 0,
                duplicatesSkipped = 0, filteredOut = 0, saved = 0\<rparr>,
      rateLimiter = newProductionRateLimiter 25 0,
      startTime = 0, maxDuration = 10 * 60 * 1000, clock = t,
      buffer = [], database = d, logs = []\<rparr>"

definition ex_rdb :: db where
  "ex_rdb =
     \<lparr>cursors = [''reddit'' \<mapsto> \<lparr>last_scraped_at = 1700000100000, last_item_date = Some 1700000100000,
                                   last_item_ids = Some [''t3_abc'']\<rparr>],
      reviews = [],
      mentions =
        [((1, ''t3_abc''),
          \<lparr>m_platform_id = 1, m_external_id = ''t3_abc'', m_author = Some ''alice'',
           m_author_url = Some ''https://reddit.com/u/alice'', m_content = ''Matiks daily challenge'',
           m_url = Some ''https://reddit.com/r/matiks/comments/abc'', m_engagement_likes = 3,
           m_engagement_comments = 0, m_engagement_shares = 0, m_sentiment_score = Some 0,
           m_sentiment_label = Some neutral, m_created_at = 1700000000000\<rparr>)],
      scrape_logs = []\<rparr>"

definition ex_api_review :: "string \<Rightarrow> ApiReview" where
  "ex_api_review rid =
     \<lparr>api_id = Some rid, api_userName = Some ''bob'', api_date = Some (Valid 400),
      api_score = Some 4, api_text = Some ''fine'', api_thumbsUp = Some 1,
      api_version = None, api_replyText = None\<rparr>"





section \<open>Verified properties\<close>


subsection \<open>Sentiment scoring\<close>



subsection \<open>Rate governor\<close>

lemma limiter_ok_mono: "limiter_ok t st \<Longrightarrow> t \<le> t' \<Longrightarrow> limiter_ok t' st"
  by (simp add: limiter_ok_def)

lemma refillTokens_fields [simp]:
  "maxTokens (refillTokens t st) = maxTokens st"
  "refillRate (refillTokens t st) = refillRate st"
  "backoffMultiplier (refillTokens t st) = backoffMultiplier st"
  "lastRefill (refillTokens t st) = t"
  "tokens (refillTokens t st) = min (maxTokens st) (tokens st + (t - lastRefill st) / 1000 * refillRate st)"
  by (simp_all add: refillTokens_def Let_def)

lemma refillTokens_ok:
  assumes "limiter_ok t st" "t \<le> t'"
  shows "limiter_ok t' (refillTokens t' st)"
proof -
  from assms have "0 \<le> (t' - lastRefill st) / 1000 * refillRate st"
    by (simp add: limiter_ok_def)
  with assms show ?thesis
    by (simp add: limiter_ok_def)
qed

lemma refill_after_wait:
  assumes ok: "limiter_ok t st" and lr: "lastRefill st = t" and low: "tokens st < 1" and late: "0 \<le> late"
  shows "1 \<le> tokens (refillTokens (t + waitTime st + late) st)"
proof -
  from ok have r: "0 < refillRate st" and b: "1 \<le> backoffMultiplier st" and m: "1 \<le> maxTokens st"
    by (simp_all add: limiter_ok_def)
  have "(t + waitTime st + late - lastRefill st) / 1000 * refillRate st
          = (1 - tokens st) * backoffMultiplier st + late / 1000 * refillRate st"
    using r by (simp add: lr waitTime_def field_simps)
  moreover have "1 - tokens st \<le> (1 - tokens st) * backoffMultiplier st"
    using low b by (simp add: mult_le_cancel_left1)
  moreover have "0 \<le> late / 1000 * refillRate st"
    using late r by simp
  ultimately have "1 \<le> tokens st + (t + waitTime st + late - lastRefill st) / 1000 * refillRate st"
    by linarith
  with m show ?thesis
    by simp
qed

lemma waitTime_nonneg:
  assumes ok: "limiter_ok t st" and low: "tokens st < 1"
  shows "0 \<le> waitTime st"
  using assms by (simp add: waitTime_def limiter_ok_def)

lemma getOrCreateLimiter_ok:
  assumes "world_ok w" "getOrCreateLimiter platform w = (st, w1)"
  shows "limiter_ok (now w) st \<and> world_ok w1 \<and> now w1 = now w \<and> limiters w1 platform = Some st
         \<and> (\<forall>q. q \<noteq> platform \<longrightarrow> limiters w1 q = limiters w q)"
proof (cases "limiters w platform")
  case None
  with assms show ?thesis
    by (auto simp: getOrCreateLimiter_def Let_def world_ok_def limiter_ok_def rateLimits_def
             split: option.splits if_splits)
next
  case (Some a)
  with assms show ?thesis
    by (auto simp: getOrCreateLimiter_def world_ok_def)
qed

lemma world_ok_update:
  assumes "world_ok w" "now w \<le> t" "limiter_ok t st"
  shows "world_ok (w\<lparr>now := t, limiters := (limiters w)(platform \<mapsto> st)\<rparr>)"
  using assms by (auto simp: world_ok_def intro: limiter_ok_mono)

lemma rateLimit_ok:
  assumes w: "world_ok w" and late: "0 \<le> late" and jit: "0 \<le> jitter"
  shows "world_ok (rateLimit platform late jitter w)"
proof -
  obtain st w1 where g: "getOrCreateLimiter platform w = (st, w1)"
    by (cases "getOrCreateLimiter platform w")
  from getOrCreateLimiter_ok [OF w g]
  have st: "limiter_ok (now w) st" and w1: "world_ok w1" and n: "now w1 = now w"
    by simp_all
  define st1 where "st1 = refillTokens (now w1) st"
  have st1: "limiter_ok (now w1) st1"
    unfolding st1_def using refillTokens_ok [OF st, of "now w1"] n by simp
  have lr: "lastRefill st1 = now w1"
    by (simp add: st1_def)
  define t2 where "t2 = (if tokens st1 < 1 then now w1 + waitTime st1 + late else now w1)"
  define st2 where "st2 = (if tokens st1 < 1 then refillTokens t2 st1 else st1)"
  have t2: "now w1 \<le> t2"
    using waitTime_nonneg [OF st1] late by (simp add: t2_def)
  have st2: "limiter_ok t2 st2"
  proof (cases "tokens st1 < 1")
    case True
    then show ?thesis
      using refillTokens_ok [OF st1 t2] by (simp add: st2_def)
  next
    case False
    then show ?thesis
      using st1 by (simp add: st2_def t2_def)
  qed
  have one: "1 \<le> tokens st2"
  proof (cases "tokens st1 < 1")
    case True
    then show ?thesis
      using refill_after_wait [OF st1 lr True late] by (simp add: st2_def t2_def)
  next
    case False
    then show ?thesis
      by (simp add: st2_def)
  qed
  define st3 where "st3 = st2\<lparr>tokens := tokens st2 - 1, lastRequest := t2\<rparr>"
  have st3: "limiter_ok (t2 + jitter) st3"
    using st2 one jit by (simp add: st3_def limiter_ok_def)
  have "rateLimit platform late jitter w
          = w1\<lparr>now := t2 + jitter, limiters := (limiters w1)(platform \<mapsto> st3)\<rparr>"
    by (simp add: rateLimit_def g Let_def st1_def t2_def st2_def st3_def)
  moreover have "world_ok (w1\<lparr>now := t2 + jitter, limiters := (limiters w1)(platform \<mapsto> st3)\<rparr>)"
    using world_ok_update [OF w1 _ st3] t2 jit by simp
  ultimately show ?thesis
    by simp
qed


lemma reportSuccess_ok:
  assumes w: "world_ok w"
  shows "world_ok (reportSuccess platform w)"
proof -
  obtain st w1 where g: "getOrCreateLimiter platform w = (st, w1)"
    by (cases "getOrCreateLimiter platform w")
  from getOrCreateLimiter_ok [OF w g]
  have st: "limiter_ok (now w) st" and w1: "world_ok w1" and n: "now w1 = now w"
    by simp_all
  have "limiter_ok (now w1) (st\<lparr>backoffMultiplier := max 1 (backoffMultiplier st * (9 / 10))\<rparr>)"
    using st n by (simp add: limiter_ok_def)
  from world_ok_update [OF w1 _ this, of platform] show ?thesis
    by (simp add: reportSuccess_def g)
qed

lemma reportFailure_ok:
  assumes w: "world_ok w"
  shows "world_ok (reportFailure platform w)"
proof -
  obtain st w1 where g: "getOrCreateLimiter platform w = (st, w1)"
    by (cases "getOrCreateLimiter platform w")
  from getOrCreateLimiter_ok [OF w g]
  have st: "limiter_ok (now w) st" and w1: "world_ok w1" and n: "now w1 = now w"
    by simp_all
  have "limiter_ok (now w1) (st\<lparr>backoffMultiplier := min 10 (backoffMultiplier st * 2), tokens := 0\<rparr>)"
    using st n by (simp add: limiter_ok_def)
  from world_ok_update [OF w1 _ this, of platform] show ?thesis
    by (simp add: reportFailure_def g)
qed

lemma getRateLimitState_ok:
  assumes w: "world_ok w"
  shows "world_ok (getRateLimitState platform w)"
proof (cases "limiters w platform")
  case None
  then show ?thesis
    using w by (simp add: getRateLimitState_def)
next
  case (Some st)
  with w have "limiter_ok (now w) st"
    by (simp add: world_ok_def)
  then have "limiter_ok (now w) (refillTokens (now w) st)"
    by (rule refillTokens_ok) simp
  from world_ok_update [OF w _ this, of platform] Some show ?thesis
    by (simp add: getRateLimitState_def)
qed

lemma step_ok: "world_ok w \<Longrightarrow> well_timed e \<Longrightarrow> world_ok (step w e)"
proof (cases e)
  case (Tick d)
  assume "world_ok w" "well_timed e"
  with Tick show ?thesis
    by (force simp: world_ok_def limiter_ok_def)
qed (simp_all add: rateLimit_ok reportSuccess_ok reportFailure_ok getRateLimitState_ok)

lemma run_events_ok:
  "world_ok w \<Longrightarrow> \<forall>e \<in> set evs. well_timed e \<Longrightarrow> world_ok (run_events evs w)"
  unfolding run_events_def
  by (induction evs arbitrary: w) (simp_all add: step_ok)

lemma start_ok: "world_ok (start t0)"
  by (simp add: world_ok_def start_def)



lemma p_refillTokens_ok:
  assumes "p_limiter_ok (l, t)" "t \<le> t'"
  shows "p_limiter_ok (p_refillTokens t' l, t')"
proof -
  from assms have "0 \<le> (t' - p_lastRefill l) / 1000 * p_refillRate l"
    by (simp add: p_limiter_ok_def)
  with assms show ?thesis
    by (simp add: p_limiter_ok_def p_refillTokens_def Let_def)
qed

lemma consume_ok:
  assumes "p_limiter_ok (l, t)"
  shows "p_limiter_ok (l\<lparr>p_tokens := max 0 (p_tokens l - 1)\<rparr>, t)"
  using assms by (simp add: p_limiter_ok_def)

lemma acquire_ok:
  assumes ok: "p_limiter_ok (l, t)" and late: "0 \<le> late"
  shows "p_limiter_ok (acquire t late l)"
proof -
  define l1 where "l1 = p_refillTokens t l"
  have l1: "p_limiter_ok (l1, t)"
    unfolding l1_def using p_refillTokens_ok [OF ok] by simp
  show ?thesis
  proof (cases "p_tokens l1 < 1")
    case False
    then show ?thesis
      using consume_ok [OF l1] by (simp add: acquire_def Let_def l1_def)
  next
    case True
    define wt where "wt = (of_int \<lceil>(1 / p_refillRate l1) * 1000 * p_backoffMultiplier l1\<rceil> :: real)"
    from l1 have "0 \<le> (1 / p_refillRate l1) * 1000 * p_backoffMultiplier l1"
      by (simp add: p_limiter_ok_def)
    then have "0 \<le> wt"
      unfolding wt_def by (simp add: le_ceiling_iff order_trans [of "-1" 0])
    with late have "t \<le> t + wt + late"
      by simp
    from consume_ok [OF p_refillTokens_ok [OF l1 this]] True show ?thesis
      by (simp add: acquire_def Let_def l1_def wt_def)
  qed
qed

lemma p_step_ok: "p_limiter_ok s \<Longrightarrow> p_well_timed e \<Longrightarrow> p_limiter_ok (p_step s e)"
proof (cases s)
  case (Pair l t)
  assume "p_limiter_ok s" "p_well_timed e"
  with Pair show ?thesis
    by (cases e) (simp_all add: acquire_ok, simp_all add: p_limiter_ok_def onSuccess_def onRateLimit_def)
qed

lemma p_run_ok:
  "p_limiter_ok s \<Longrightarrow> \<forall>e \<in> set evs. p_well_timed e \<Longrightarrow> p_limiter_ok (p_run evs s)"
  unfolding p_run_def
  by (induction evs arbitrary: s) (simp_all add: p_step_ok)

lemma new_p_ok: "0 < rpm \<Longrightarrow> p_limiter_ok (newProductionRateLimiter rpm t0, t0)"
  by (simp add: p_limiter_ok_def newProductionRateLimiter_def le_ceiling_iff order_trans [of "-1" 0])




lemma backoff_step_facts:
  fixes b :: real
  assumes "1 \<le> b" "b \<le> 10"
  shows "b \<le> min 10 (b * 2)" and "max 1 (b * (9 / 10)) \<le> b"
    and "(max 1 (b * (9 / 10)) < b) = (1 < b)"
    and "1 \<le> min 10 (b * 2)" and "min 10 (b * 2) \<le> 10"
    and "1 \<le> max 1 (b * (9 / 10))" and "max 1 (b * (9 / 10)) \<le> 10"
  using assms by (auto simp: min_def max_def)

text \<open>
  C3 (as amended). \<open>backoffMultiplier\<close> stays in \<open>[1, 10]\<close> along every sequence of
  operations; a failure report sets it to \<open>min 10 (2 * b)\<close> and drains the tokens to 0; a
  success report sets it to \<open>max 1 (0.9 * b)\<close>. So it never decreases over a failure and
  never increases over a success, and a success lowers it strictly exactly when it is
  above the baseline 1: at the baseline it stays 1.
\<close>

theorem backoff_multiplier_behaviour:
  assumes "world_ok w" and "list_all well_timed evs"
    and "getOrCreateLimiter platform w = (st, w1)"
    and "p_limiter_ok (l, t)" and "list_all p_well_timed pevs"
  shows "(\<forall>n q st'. limiters (run_events (take n evs) w) q = Some st' \<longrightarrow>
            1 \<le> backoffMultiplier st' \<and> backoffMultiplier st' \<le> 10)
       \<and> (\<forall>n l' t'. p_run (take n pevs) (l, t) = (l', t') \<longrightarrow>
            1 \<le> p_backoffMultiplier l' \<and> p_backoffMultiplier l' \<le> 10)
       \<and> limiters (reportFailure platform w) platform =
            Some (st\<lparr>backoffMultiplier := min 10 (backoffMultiplier st * 2), tokens := 0\<rparr>)
       \<and> limiters (reportSuccess platform w) platform =
            Some (st\<lparr>backoffMultiplier := max 1 (backoffMultiplier st * (9 / 10))\<rparr>)
       \<and> onRateLimit l =
            l\<lparr>p_consecutiveErrors := p_consecutiveErrors l + 1,
              p_backoffMultiplier := min 10 (p_backoffMultiplier l * 2), p_tokens := 0\<rparr>
       \<and> onSuccess l =
            l\<lparr>p_consecutiveErrors := 0,
              p_backoffMultiplier := max 1 (p_backoffMultiplier l * (9 / 10))\<rparr>
       \<and> backoffMultiplier st \<le> min 10 (backoffMultiplier st * 2)
       \<and> max 1 (backoffMultiplier st * (9 / 10)) \<le> backoffMultiplier st
       \<and> (max 1 (backoffMultiplier st * (9 / 10)) < backoffMultiplier st) = (1 < backoffMultiplier st)
       \<and> p_backoffMultiplier l \<le> p_backoffMultiplier (onRateLimit l)
       \<and> p_backoffMultiplier (onSuccess l) \<le> p_backoffMultiplier l
       \<and> (p_backoffMultiplier (onSuccess l) < p_backoffMultiplier l) = (1 < p_backoffMultiplier l)"
proof -
  have inv1: "\<forall>n q st'. limiters (run_events (take n evs) w) q = Some st' \<longrightarrow>
            1 \<le> backoffMultiplier st' \<and> backoffMultiplier st' \<le> 10"
  proof (intro allI impI)
    fix n q st'
    assume st': "limiters (run_events (take n evs) w) q = Some st'"
    from assms(2) have "\<forall>e \<in> set (take n evs). well_timed e"
      by (auto simp: list_all_iff dest: in_set_takeD)
    from run_events_ok [OF assms(1) this] st'
    show "1 \<le> backoffMultiplier st' \<and> backoffMultiplier st' \<le> 10"
      by (simp add: world_ok_def limiter_ok_def)
  qed
  have inv2: "\<forall>n l' t'. p_run (take n pevs) (l, t) = (l', t') \<longrightarrow>
            1 \<le> p_backoffMultiplier l' \<and> p_backoffMultiplier l' \<le> 10"
  proof (intro allI impI)
    fix n l' t'
    assume lt: "p_run (take n pevs) (l, t) = (l', t')"
    from assms(5) have "\<forall>e \<in> set (take n pevs). p_well_timed e"
      by (auto simp: list_all_iff dest: in_set_takeD)
    from p_run_ok [OF assms(4) this] lt
    show "1 \<le> p_backoffMultiplier l' \<and> p_backoffMultiplier l' \<le> 10"
      by (simp add: p_limiter_ok_def)
  qed
  from getOrCreateLimiter_ok [OF assms(1,3)]
  have b: "1 \<le> backoffMultiplier st" "backoffMultiplier st \<le> 10"
    by (simp_all add: limiter_ok_def)
  from assms(4) have pb: "1 \<le> p_backoffMultiplier l" "p_backoffMultiplier l \<le> 10"
    by (simp_all add: p_limiter_ok_def)
  have f: "limiters (reportFailure platform w) platform =
            Some (st\<lparr>backoffMultiplier := min 10 (backoffMultiplier st * 2), tokens := 0\<rparr>)"
    by (simp add: reportFailure_def assms(3))
  have s: "limiters (reportSuccess platform w) platform =
            Some (st\<lparr>backoffMultiplier := max 1 (backoffMultiplier st * (9 / 10))\<rparr>)"
    by (simp add: reportSuccess_def assms(3))
  show ?thesis
    using inv1 inv2 f s backoff_step_facts(1-3) [OF b] backoff_step_facts(1-3) [OF pb]
    by (simp add: onRateLimit_def onSuccess_def)
qed

text \<open>
  The claim as stated asks for a strict decrease over consecutive successes. A limiter
  at the baseline (every new limiter is) keeps the multiplier 1 over two successes.
\<close>

theorem backoff_success_counterexample:
  "map_option backoffMultiplier (limiters (reportSuccess ''playstore'' (start 0)) ''playstore'') = Some 1
   \<and> map_option backoffMultiplier
        (limiters (reportSuccess ''playstore'' (reportSuccess ''playstore'' (start 0))) ''playstore'') = Some 1
   \<and> p_backoffMultiplier (onSuccess (newProductionRateLimiter 25 0)) = 1
   \<and> p_backoffMultiplier (onSuccess (onSuccess (newProductionRateLimiter 25 0))) = 1
   \<and> \<not> p_backoffMultiplier (onSuccess (onSuccess (newProductionRateLimiter 25 0)))
         < p_backoffMultiplier (onSuccess (newProductionRateLimiter 25 0))"
  by (simp add: reportSuccess_def getOrCreateLimiter_def start_def rateLimits_def Let_def
      onSuccess_def newProductionRateLimiter_def)

theorem backoff_multiplier_behaviour_witness:
  "limiters (reportFailure ''appstore'' (reportFailure ''appstore'' (start 0))) ''appstore''
     = Some \<lparr>tokens = 0, lastRefill = 0, maxTokens = 10, refillRate = 1 / 5,
             backoffMultiplier = 4, lastRequest = 0\<rparr>
   \<and> limiters (reportSuccess ''appstore'' (reportFailure ''appstore'' (start 0))) ''appstore''
     = Some \<lparr>tokens = 0, lastRefill = 0, maxTokens = 10, refillRate = 1 / 5,
             backoffMultiplier = 9 / 5, lastRequest = 0\<rparr>
   \<and> p_backoffMultiplier (onRateLimit (newProductionRateLimiter 25 0)) = 2
   \<and> p_backoffMultiplier (onSuccess (onRateLimit (newProductionRateLimiter 25 0))) = 9 / 5"
proof -
  let ?w = "reportFailure ''appstore'' (start 0)"
  let ?st = "\<lparr>tokens = 0, lastRefill = 0, maxTokens = 10, refillRate = 1 / 5,
               backoffMultiplier = 2, lastRequest = 0\<rparr>"
  let ?l = "onRateLimit (newProductionRateLimiter 25 0)"
  have w: "?w = \<lparr>now = 0, limiters = [''appstore'' \<mapsto> ?st]\<rparr>"
    by (simp add: reportFailure_def getOrCreateLimiter_def start_def rateLimits_def Let_def)
  have h1: "world_ok ?w"
    unfolding w by (simp add: world_ok_def limiter_ok_def)
  have h2: "list_all well_timed []"
    by simp
  have h3: "getOrCreateLimiter ''appstore'' ?w = (?st, ?w)"
    unfolding w by (simp add: getOrCreateLimiter_def)
  have h4: "p_limiter_ok (?l, 0)"
    by (simp add: p_limiter_ok_def onRateLimit_def newProductionRateLimiter_def)
  have h5: "list_all p_well_timed []"
    by simp
  from backoff_multiplier_behaviour [OF h1 h2 h3 h4 h5]
  have "limiters (reportFailure ''appstore'' ?w) ''appstore'' =
          Some (?st\<lparr>backoffMultiplier := min 10 (backoffMultiplier ?st * 2), tokens := 0\<rparr>)"
    and "limiters (reportSuccess ''appstore'' ?w) ''appstore'' =
          Some (?st\<lparr>backoffMultiplier := max 1 (backoffMultiplier ?st * (9 / 10))\<rparr>)"
    and "onSuccess ?l = ?l\<lparr>p_consecutiveErrors := 0,
              p_backoffMultiplier := max 1 (p_backoffMultiplier ?l * (9 / 10))\<rparr>"
    by blast+
  then show ?thesis
    by (simp add: onRateLimit_def newProductionRateLimiter_def)
qed

subsection \<open>App Store pagination\<close>

















subsection \<open>Cursor update at the end of a marketplace run\<close>

lemma max_date_snoc:
  "max_date (ts @ [t]) = (case max_date ts of None \<Rightarrow> Some t | Some n \<Rightarrow> if n < t then Some t else Some n)"
proof (cases "ts = []")
  case True
  then show ?thesis
    by (simp add: max_date_def)
next
  case False
  define M where "M = Max (set ts)"
  from False have eq1: "max_date (ts @ [t]) = Some (max t M)"
    by (simp add: max_date_def M_def)
  from False have eq2: "max_date ts = Some M"
    by (simp add: max_date_def M_def)
  show ?thesis
    unfolding eq1 eq2 by (simp add: max_def)
qed

lemma recentIds_most_recent: "most_recent n revs (recentIds n revs)"
proof -
  let ?f = "\<lambda>r. - rv_review_date r"
  let ?s = "sort_key ?f revs"
  have "sorted (map ?f (take n ?s) @ map ?f (drop n ?s))"
    by (metis append_take_drop_id map_append sorted_sort_key)
  then have "\<forall>x \<in> set (map ?f (take n ?s)). \<forall>y \<in> set (map ?f (drop n ?s)). x \<le> y"
    unfolding sorted_append by blast
  then have "\<forall>a \<in> set (take n ?s). \<forall>b \<in> set (drop n ?s). rv_review_date b \<le> rv_review_date a"
    by fastforce
  moreover have "mset (take n ?s @ drop n ?s) = mset revs"
    by simp
  moreover have "length (take n ?s) = min n (length revs)"
    by simp
  ultimately show ?thesis
    unfolding most_recent_def recentIds_def by blast
qed

lemma recentIds_sorted: "recentIds n (sort_key (\<lambda>r. - rv_review_date r) revs) = recentIds n revs"
  by (simp add: recentIds_def sort_key_id_if_sorted)

lemma cursors_insertReviews [simp]: "cursors (snd (insertReviews revs d)) = cursors d"
proof -
  have "\<And>n. cursors (snd (foldl (\<lambda>(newCount, d') review.
              (if map_of (reviews d') (rv_platform_id review, rv_external_id review) = None
               then newCount + 1 else newCount,
               d'\<lparr>reviews := upsertReview review (reviews d')\<rparr>)) (n, d) revs)) = cursors d"
    by (induction revs arbitrary: d) simp_all
  then show ?thesis
    by (simp add: insertReviews_def)
qed

lemma cursors_logScrapeStart [simp]: "cursors (snd (logScrapeStart t p d)) = cursors d"
  by (simp add: logScrapeStart_def)

lemma cursors_logScrapeEnd [simp]: "cursors (logScrapeEnd t i st a b e d) = cursors d"
  by (simp add: logScrapeEnd_def)

lemma as_convert_Inl [simp]: "foldl (as_convert env) (Inl e) xs = Inl e"
  by (induction xs) (simp_all add: as_convert_def)

lemma as_convert_step:
  assumes "as_convert env (Inr (revs0, n0)) x = Inr (revs1, n1)"
  shows "\<exists>r. revs1 = revs0 @ [r] \<and> rv_external_id r = r_id x \<and>
             n1 = (case n0 of None \<Rightarrow> Some (rv_review_date r)
                   | Some n \<Rightarrow> if n < rv_review_date r then Some (rv_review_date r) else Some n)"
  using assms by (auto simp: as_convert_def Let_def split: sum.splits option.splits)

lemma as_convert_newest:
  assumes "foldl (as_convert env) (Inr (revs0, n0)) xs = Inr (revs, n)"
    and "n0 = max_date (map rv_review_date revs0)"
  shows "n = max_date (map rv_review_date revs) \<and> length revs = length revs0 + length xs"
  using assms
proof (induction xs arbitrary: revs0 n0)
  case Nil
  then show ?case by auto
next
  case (Cons x xs)
  show ?case
  proof (cases "as_convert env (Inr (revs0, n0)) x")
    case (Inl e)
    with Cons.prems show ?thesis
      by simp
  next
    case (Inr p)
    obtain revs1 n1 where p: "p = (revs1, n1)"
      by (cases p)
    from as_convert_step [OF Inr [unfolded p]] Cons.prems(2)
    have "n1 = max_date (map rv_review_date revs1) \<and> length revs1 = Suc (length revs0)"
      by (auto simp: max_date_snoc)
    with Cons.IH [of revs1 n1] Cons.prems(1) Inr p show ?thesis
      by simp
  qed
qed

lemma ps_convert_Inl [simp]: "foldl (ps_convert env) (Inl e) xs = Inl e"
  by (induction xs) (simp_all add: ps_convert_def)

lemma valid_dates_snoc:
  "valid_dates (rs @ [r]) = valid_dates rs @ (case pr_date r of Some (Valid t) \<Rightarrow> [t] | _ \<Rightarrow> [])"
  by (simp add: valid_dates_def)

lemma ps_convert_step:
  assumes "ps_convert env (Inr (revs0, n0)) x = Inr (revs1, n1)"
  shows "(\<exists>r. revs1 = revs0 @ [r] \<and> rv_external_id r = pr_id x) \<and>
         n1 = (case pr_date x of
                 Some (Valid t) \<Rightarrow>
                   (case n0 of None \<Rightarrow> Some t | Some n \<Rightarrow> if n < t then Some t else Some n)
               | _ \<Rightarrow> n0)"
  using assms by (auto simp: ps_convert_def Let_def split: sum.splits option.splits js_date.splits)

lemma ps_convert_newest:
  assumes "foldl (ps_convert env) (Inr (revs0, n0)) xs = Inr (revs, n)"
    and "n0 = max_date (valid_dates done)"
  shows "n = max_date (valid_dates (done @ xs)) \<and> length revs = length revs0 + length xs"
  using assms
proof (induction xs arbitrary: revs0 n0 "done")
  case Nil
  then show ?case by auto
next
  case (Cons x xs)
  show ?case
  proof (cases "ps_convert env (Inr (revs0, n0)) x")
    case (Inl e)
    with Cons.prems show ?thesis
      by simp
  next
    case (Inr p)
    obtain revs1 n1 where p: "p = (revs1, n1)"
      by (cases p)
    from ps_convert_step [OF Inr [unfolded p]] Cons.prems(2)
    have "n1 = max_date (valid_dates (done @ [x])) \<and> length revs1 = Suc (length revs0)"
      by (auto simp: valid_dates_snoc max_date_snoc split: option.splits js_date.splits)
    with Cons.IH [of revs1 n1 "done @ [x]"] Cons.prems(1) Inr p show ?thesis
      by simp
  qed
qed

lemma max_date_Nil_iff: "max_date ts = None \<longleftrightarrow> ts = []"
  by (simp add: max_date_def)

lemma max_date_sort [simp]:
  "max_date (map rv_review_date (sort_key f revs)) = max_date (map rv_review_date revs)"
proof -
  have "(sort_key f revs = []) = (revs = [])"
    by (metis length_sort length_0_conv)
  then show ?thesis
    by (simp add: max_date_def)
qed

lemma as_run_completed:
  assumes run: "as_run env d = (res, d')" and ok: "errors res = []"
  obtains revs where
    "foldl (as_convert env) (Inr ([], None)) (map snd (as_collect env d)) = Inr (revs, max_date (map rv_review_date revs))"
    and "mset (items res) = mset revs"
    and "recentIds 100 (items res) = recentIds 100 revs"
    and "cursors d' =
           (if advances (watermark ''appstore'' d) (max_date (map rv_review_date revs))
            then (cursors d)(''appstore'' \<mapsto>
                   \<lparr>last_scraped_at = as_now env, last_item_date = max_date (map rv_review_date revs),
                    last_item_ids = Some (recentIds 100 revs)\<rparr>)
            else cursors d)"
proof -
  obtain logId d1 where ls: "logScrapeStart (as_now env) ''appstore'' d = (logId, d1)"
    by (cases "logScrapeStart (as_now env) ''appstore'' d")
  then have c1: "cursors d1 = cursors d"
    using cursors_logScrapeStart [of "as_now env" "''appstore''" d] by simp
  from run ok have cfg: "as_appIdConfigured env"
    by (auto simp: as_run_def Let_def ls split: if_splits)
  show thesis
  proof (cases "foldl (as_convert env) (Inr ([], None)) (map snd (as_collect env d))")
    case (Inl e)
    with run ok cfg show thesis
      by (auto simp: as_run_def Let_def ls)
  next
    case (Inr p)
    obtain revs newest where p: "p = (revs, newest)"
      by (cases p)
    from as_convert_newest [OF Inr [unfolded p]] have newest: "newest = max_date (map rv_review_date revs)"
      by (simp add: max_date_def)
    obtain n2 d2 where ins: "insertReviews revs d1 = (n2, d2)"
      by (cases "insertReviews revs d1")
    then have c2: "cursors d2 = cursors d"
      using cursors_insertReviews [of revs d1] c1 by simp
    have wm: "(case getScrapeCursor ''appstore'' d of None \<Rightarrow> None | Some c \<Rightarrow> last_item_date c)
                = watermark ''appstore'' d"
      by (simp add: watermark_def getScrapeCursor_def)
    show thesis
    proof (cases "revs = []")
      case True
      with newest have "newest = None"
        by (simp add: max_date_def)
      with run cfg Inr p ins True c2 have "items res = revs" "cursors d' = cursors d"
        by (auto simp: as_run_def Let_def ls split: if_splits)
      with True Inr p newest that [of revs] show thesis
        by (simp add: advances_def max_date_def)
    next
      case False
      then obtain n where n: "newest = Some n"
        using newest by (auto simp: max_date_def)
      show thesis
      proof (cases "case watermark ''appstore'' d of None \<Rightarrow> True | Some c \<Rightarrow> c < n")
        case True
        with run cfg Inr p ins n c2 wm
        have "items res = sort_key (\<lambda>r. - rv_review_date r) revs"
          and "cursors d' = (cursors d)(''appstore'' \<mapsto>
                   \<lparr>last_scraped_at = as_now env, last_item_date = Some n,
                    last_item_ids = Some (recentIds 100 revs)\<rparr>)"
          by (auto simp: as_run_def Let_def ls updateScrapeCursor_def split: if_splits option.splits)
        moreover from True n newest
        have "advances (watermark ''appstore'' d) (max_date (map rv_review_date revs))"
          by (auto simp: advances_def split: option.splits)
        ultimately show thesis
          using False Inr p newest n that [of revs] by (simp add: recentIds_sorted)
      next
        case no: False
        with run cfg Inr p ins n c2 wm
        have "items res = revs" and "cursors d' = cursors d"
          by (auto simp: as_run_def Let_def ls split: if_splits option.splits)
        moreover from no n newest
        have "\<not> advances (watermark ''appstore'' d) (max_date (map rv_review_date revs))"
          by (auto simp: advances_def split: option.splits)
        ultimately show thesis
          using Inr p newest that [of revs] by simp
      qed
    qed
  qed
qed


lemma ps_run_completed:
  assumes run: "ps_run env d = (res, d')" and ok: "errors res = []"
  obtains revs where
    "foldl (ps_convert env) (Inr ([], None)) (map snd (ps_collect env d))
       = Inr (revs, max_date (valid_dates (map snd (ps_collect env d))))"
    and "mset (items res) = mset revs"
    and "recentIds 50 (items res) = recentIds 50 revs"
    and "cursors d' =
           (if revs \<noteq> []
            then (cursors d)(''playstore'' \<mapsto>
                   \<lparr>last_scraped_at = ps_now env,
                    last_item_date = max_date (valid_dates (map snd (ps_collect env d))),
                    last_item_ids = Some (recentIds 50 revs)\<rparr>)
            else if cursors d ''playstore'' = None
            then (cursors d)(''playstore'' \<mapsto>
                   \<lparr>last_scraped_at = ps_now env, last_item_date = Some (ps_now env),
                    last_item_ids = None\<rparr>)
            else cursors d)"
proof -
  obtain logId d1 where ls: "logScrapeStart (ps_now env) ''playstore'' d = (logId, d1)"
    by (cases "logScrapeStart (ps_now env) ''playstore'' d")
  then have c1: "cursors d1 = cursors d"
    using cursors_logScrapeStart [of "ps_now env" "''playstore''" d] by simp
  from run ok have cfg: "ps_appIdConfigured env"
    by (auto simp: ps_run_def Let_def ls split: if_splits)
  show thesis
  proof (cases "foldl (ps_convert env) (Inr ([], None)) (map snd (ps_collect env d))")
    case (Inl e)
    with run ok cfg show thesis
      by (auto simp: ps_run_def Let_def ls)
  next
    case (Inr p)
    obtain revs newest where p: "p = (revs, newest)"
      by (cases p)
    from ps_convert_newest [OF Inr [unfolded p], of "[]"]
    have newest: "newest = max_date (valid_dates (map snd (ps_collect env d)))"
      by (simp add: max_date_def valid_dates_def)
    obtain n2 d2 where ins: "insertReviews revs d1 = (n2, d2)"
      by (cases "insertReviews revs d1")
    then have c2: "cursors d2 = cursors d"
      using cursors_insertReviews [of revs d1] c1 by simp
    show thesis
    proof (cases "revs = []")
      case True
      with run cfg Inr p c1 have "items res = revs"
        and "cursors d' =
               (if cursors d ''playstore'' = None
                then (cursors d)(''playstore'' \<mapsto>
                       \<lparr>last_scraped_at = ps_now env, last_item_date = Some (ps_now env),
                        last_item_ids = None\<rparr>)
                else cursors d)"
        by (auto simp: ps_run_def Let_def ls updateScrapeCursor_def getScrapeCursor_def split: if_splits)
      with True Inr p newest that [of revs] show thesis
        by simp
    next
      case False
      with run cfg Inr p ins c2 newest
      have "items res = sort_key (\<lambda>r. - rv_review_date r) revs"
        and "cursors d' = (cursors d)(''playstore'' \<mapsto>
                   \<lparr>last_scraped_at = ps_now env,
                    last_item_date = max_date (valid_dates (map snd (ps_collect env d))),
                    last_item_ids = Some (recentIds 50 revs)\<rparr>)"
        by (auto simp: ps_run_def Let_def ls updateScrapeCursor_def split: if_splits)
      with False Inr p newest that [of revs] show thesis
        by (simp add: recentIds_sorted)
    qed
  qed
qed

lemma max_date_mset:
  assumes "mset xs = mset ys"
  shows "max_date (map rv_review_date xs) = max_date (map rv_review_date ys)"
proof -
  from assms have "set xs = set ys"
    by (rule mset_eq_setD)
  moreover from assms have "(xs = []) = (ys = [])"
    by (metis mset_zero_iff)
  ultimately show ?thesis
    by (simp add: max_date_def)
qed

text \<open>
  C1 (as amended). For a run of the App Store or the Play Store scraper that completes
  without an error. App Store: when the maximum timestamp among the accepted reviews is
  newer than the cursor's watermark, or there is no watermark, the cursor is written with
  \<open>last_scraped_at\<close> the current time, \<open>last_item_date\<close> that maximum and \<open>last_item_ids\<close>
  the identifiers of the 100 most recent accepted reviews; in every other case, zero
  accepted reviews among them, the cursor row is left as it was, \<open>last_scraped_at\<close>
  included. Play Store: when at least one review was accepted the cursor is written with
  the current time, the maximum timestamp among the accepted reviews that carry a date
  (\<open>None\<close> when none does) and the identifiers of the 50 most recent; when none was
  accepted and a cursor existed, the row is left as it was.
\<close>

theorem cursor_update_at_run_end:
  assumes "as_run env d = (res, d')" and "errors res = []"
    and "ps_run penv d = (pres, pd')" and "errors pres = []"
  shows "(advances (watermark ''appstore'' d) (max_date (map rv_review_date (items res))) \<longrightarrow>
            cursors d' ''appstore'' =
              Some \<lparr>last_scraped_at = as_now env,
                    last_item_date = max_date (map rv_review_date (items res)),
                    last_item_ids = Some (recentIds 100 (items res))\<rparr>
            \<and> most_recent 100 (items res) (recentIds 100 (items res)))
       \<and> (\<not> advances (watermark ''appstore'' d) (max_date (map rv_review_date (items res))) \<longrightarrow>
            cursors d' ''appstore'' = cursors d ''appstore'')
       \<and> (items res = [] \<longrightarrow> cursors d' ''appstore'' = cursors d ''appstore'')
       \<and> (items pres \<noteq> [] \<longrightarrow>
            cursors pd' ''playstore'' =
              Some \<lparr>last_scraped_at = ps_now penv,
                    last_item_date = max_date (valid_dates (map snd (ps_collect penv d))),
                    last_item_ids = Some (recentIds 50 (items pres))\<rparr>
            \<and> most_recent 50 (items pres) (recentIds 50 (items pres)))
       \<and> (items pres = [] \<and> cursors d ''playstore'' \<noteq> None \<longrightarrow>
            cursors pd' ''playstore'' = cursors d ''playstore'')"
proof -
  from as_run_completed [OF assms(1,2)] obtain revs where
    a2: "mset (items res) = mset revs"
    and a3: "recentIds 100 (items res) = recentIds 100 revs"
    and a4: "cursors d' =
           (if advances (watermark ''appstore'' d) (max_date (map rv_review_date revs))
            then (cursors d)(''appstore'' \<mapsto>
                   \<lparr>last_scraped_at = as_now env, last_item_date = max_date (map rv_review_date revs),
                    last_item_ids = Some (recentIds 100 revs)\<rparr>)
            else cursors d)"
    by blast
  from max_date_mset [OF a2]
  have m: "max_date (map rv_review_date (items res)) = max_date (map rv_review_date revs)" .
  from ps_run_completed [OF assms(3,4)] obtain prevs where
    p2: "mset (items pres) = mset prevs"
    and p3: "recentIds 50 (items pres) = recentIds 50 prevs"
    and p4: "cursors pd' =
           (if prevs \<noteq> []
            then (cursors d)(''playstore'' \<mapsto>
                   \<lparr>last_scraped_at = ps_now penv,
                    last_item_date = max_date (valid_dates (map snd (ps_collect penv d))),
                    last_item_ids = Some (recentIds 50 prevs)\<rparr>)
            else if cursors d ''playstore'' = None
            then (cursors d)(''playstore'' \<mapsto>
                   \<lparr>last_scraped_at = ps_now penv, last_item_date = Some (ps_now penv),
                    last_item_ids = None\<rparr>)
            else cursors d)"
    by blast
  from p2 have pe: "(items pres = []) = (prevs = [])"
    by (metis mset_zero_iff)
  have e: "items res = [] \<Longrightarrow> \<not> advances (watermark ''appstore'' d) (max_date (map rv_review_date (items res)))"
    by (simp add: advances_def max_date_def)
  show ?thesis
    using a3 a4 m p3 p4 pe e recentIds_most_recent [of 100 "items res"]
      recentIds_most_recent [of 50 "items pres"]
    by (auto simp del: fun_upd_apply simp add: fun_upd_same)
qed

text \<open>
  The claim as stated lets \<open>last_scraped_at\<close> advance to the current time on a run that
  accepts nothing. An hour after the last scrape, a run of either marketplace scraper
  that finds nothing completes and leaves \<open>last_scraped_at\<close> where it was.
\<close>

theorem cursor_quiet_run_counterexample:
  "errors (fst (as_run quiet_as_env (ex_db 1700000000000 1699990000000))) = []
   \<and> items (fst (as_run quiet_as_env (ex_db 1700000000000 1699990000000))) = []
   \<and> cursors (snd (as_run quiet_as_env (ex_db 1700000000000 1699990000000))) ''appstore''
       = Some \<lparr>last_scraped_at = 1700000000000, last_item_date = Some 1699990000000,
               last_item_ids = Some [''r0'']\<rparr>
   \<and> as_now quiet_as_env = 1700003600000
   \<and> errors (fst (ps_run quiet_ps_env (ex_db 1700000000000 1699990000000))) = []
   \<and> items (fst (ps_run quiet_ps_env (ex_db 1700000000000 1699990000000))) = []
   \<and> cursors (snd (ps_run quiet_ps_env (ex_db 1700000000000 1699990000000))) ''playstore''
       = Some \<lparr>last_scraped_at = 1700000000000, last_item_date = Some 1699990000000,
               last_item_ids = Some [''p0'']\<rparr>
   \<and> ps_now quiet_ps_env = 1700003600000"
proof -
  have rss: "fetchFromRSSFeeds quiet_as_env c = []" for c
    by (simp add: fetchFromRSSFeeds_def countries_def fetchAllPagesForCountry_def maxPages_def
        quiet_as_env_def addMissing_def)
  have col: "as_collect quiet_as_env (ex_db 1700000000000 1699990000000) = []"
    by (simp add: as_collect_def rss Let_def getScrapeCursor_def ex_db_def)
       (simp add: quiet_as_env_def addMissing_def)
  have cfg: "as_appIdConfigured quiet_as_env" "as_now quiet_as_env = 1700003600000"
    "ps_appIdConfigured quiet_ps_env" "ps_now quiet_ps_env = 1700003600000"
    by (simp_all add: quiet_as_env_def quiet_ps_env_def)
  have a: "as_run quiet_as_env (ex_db 1700000000000 1699990000000)
             = (\<lparr>items = [], newItems = 0, errors = []\<rparr>,
                logScrapeEnd 1700003600000 1 success 0 0 None
                  (snd (logScrapeStart 1700003600000 ''appstore'' (ex_db 1700000000000 1699990000000))))"
    by (simp add: as_run_def col cfg Let_def getScrapeCursor_def insertReviews_def)
       (simp add: ex_db_def logScrapeStart_def)
  have api: "fetchViaAPI quiet_ps_env k = []" for k
    by (simp add: fetchViaAPI_def quiet_ps_env_def)
  have pcol: "ps_collect quiet_ps_env (ex_db 1700000000000 1699990000000) = []"
    by (simp add: ps_collect_def api Let_def getScrapeCursor_def ex_db_def)
       (simp add: quiet_ps_env_def)
  have b: "ps_run quiet_ps_env (ex_db 1700000000000 1699990000000)
             = (\<lparr>items = [], newItems = 0, errors = []\<rparr>,
                logScrapeEnd 1700003600000 1 success 0 0 None
                  (snd (logScrapeStart 1700003600000 ''playstore'' (ex_db 1700000000000 1699990000000))))"
    by (simp add: ps_run_def pcol cfg Let_def getScrapeCursor_def)
       (simp add: ex_db_def logScrapeStart_def)
  show ?thesis
    unfolding a b by (simp add: ex_db_def cfg logScrapeStart_def logScrapeEnd_def)
qed


theorem cursor_update_at_run_end_witness:
  "cursors (snd (as_run ex_env (ex_db 100 220))) ''appstore''
     = Some \<lparr>last_scraped_at = 1000, last_item_date = Some 300, last_item_ids = Some [''r1'', ''r2'']\<rparr>
   \<and> cursors (snd (ps_run ex_ps_env (ex_db 100 220))) ''playstore''
     = Some \<lparr>last_scraped_at = 1000, last_item_date = Some 400, last_item_ids = Some [''p2'', ''p1'']\<rparr>"
proof -
  let ?d = "ex_db 100 220"
  have cfg: "as_appIdConfigured ex_env" "as_now ex_env = 1000" "as_browser ex_env c = []"
    "as_analyze ex_env = (\<lambda>t. Inr \<lparr>a_score = 0, a_comparative = 0, a_tokens = []\<rparr>)"
    "ps_appIdConfigured ex_ps_env" "ps_now ex_ps_env = 1000" "ps_browser ex_ps_env k b = []"
    "ps_analyze ex_ps_env = (\<lambda>t. Inr \<lparr>a_score = 0, a_comparative = 0, a_tokens = []\<rparr>)" for c k b
    by (simp_all add: ex_env_def ex_ps_env_def)
  have wm: "watermark ''appstore'' ?d = Some 220" "getScrapeCursor ''appstore'' ?d =
       Some \<lparr>last_scraped_at = 100, last_item_date = Some 220, last_item_ids = Some [''r0'']\<rparr>"
     "getScrapeCursor ''playstore'' ?d =
       Some \<lparr>last_scraped_at = 100, last_item_date = Some 220, last_item_ids = Some [''p0'']\<rparr>"
     "getRecentExternalIds ''playstore'' 1000 ?d = []"
    by (simp_all add: watermark_def getScrapeCursor_def ex_db_def getRecentExternalIds_def PLATFORMS_def)
  have col: "map r_id (map snd (as_collect ex_env ?d)) = [''r1'', ''r2'']
             \<and> map r_updated (map snd (as_collect ex_env ?d)) = [Valid 300, Valid 250]"
    by (simp add: as_collect_def wm cfg Let_def)
       (simp add: fetchFromRSSFeeds_def countries_def fetchAllPagesForCountry_def maxPages_def
          ex_env_def ex_entry_def addMissing_def processEntry_def date_le_def or_else_def
          toUpperCase_def Let_def)
  have neutral: "analyzeSentiment (\<lambda>t. Inr \<lparr>a_score = 0, a_comparative = 0, a_tokens = []\<rparr>) x
                   = Inr \<lparr>sr_score = 0, sr_label = neutral, sr_confidence = 0\<rparr>" for x
    by (simp add: analyzeSentiment_def toFixed3_def Let_def split: option.splits)
  obtain a b where ab: "map snd (as_collect ex_env ?d) = [a, b]"
    using col by (cases "map snd (as_collect ex_env ?d)") (auto simp: Cons_eq_map_conv)
  with col have abv: "r_id a = ''r1''" "r_id b = ''r2''" "r_updated a = Valid 300" "r_updated b = Valid 250"
    by simp_all
  have i: "map rv_external_id (items (fst (as_run ex_env ?d))) = [''r1'', ''r2'']
           \<and> map rv_review_date (items (fst (as_run ex_env ?d))) = [300, 250]
           \<and> errors (fst (as_run ex_env ?d)) = []"
    by (simp add: as_run_def ab abv wm cfg neutral as_convert_def normalizeDate_def Let_def
          split: prod.splits)
  then have e: "errors (fst (as_run ex_env ?d)) = []"
    by simp
  have pcol: "map snd (ps_collect ex_ps_env ?d) =
                [\<lparr>pr_id = ''p1'', pr_userName = ''bob'', pr_date = Some (Valid 400), pr_score = 4,
                  pr_text = ''fine'', pr_thumbsUp = 1, pr_version = None, pr_replyText = None\<rparr>,
                 \<lparr>pr_id = ''p2'', pr_userName = ''cy'', pr_date = None, pr_score = 2,
                  pr_text = ''meh'', pr_thumbsUp = 0, pr_version = None, pr_replyText = None\<rparr>]"
    by (simp add: ps_collect_def wm cfg Let_def)
       (simp add: fetchViaAPI_def ex_ps_env_def apiReview_def or_else_def)
  have pi: "map rv_external_id (items (fst (ps_run ex_ps_env ?d))) = [''p2'', ''p1'']
           \<and> map rv_review_date (items (fst (ps_run ex_ps_env ?d))) = [1000, 400]
           \<and> errors (fst (ps_run ex_ps_env ?d)) = []"
    by (simp add: ps_run_def pcol wm cfg neutral ps_convert_def Let_def split: prod.splits)
  then have pe: "errors (fst (ps_run ex_ps_env ?d)) = []"
    by simp
  have adv: "advances (watermark ''appstore'' ?d) (max_date (map rv_review_date (items (fst (as_run ex_env ?d)))))"
    using i by (simp add: wm advances_def max_date_def)
  have ne: "items (fst (ps_run ex_ps_env ?d)) \<noteq> []"
    using pi by auto
  from cursor_update_at_run_end [OF prod.collapse [symmetric] e prod.collapse [symmetric] pe] adv ne
  have "cursors (snd (as_run ex_env ?d)) ''appstore'' =
              Some \<lparr>last_scraped_at = as_now ex_env,
                    last_item_date = max_date (map rv_review_date (items (fst (as_run ex_env ?d)))),
                    last_item_ids = Some (recentIds 100 (items (fst (as_run ex_env ?d))))\<rparr>"
    and "cursors (snd (ps_run ex_ps_env ?d)) ''playstore'' =
              Some \<lparr>last_scraped_at = ps_now ex_ps_env,
                    last_item_date = max_date (valid_dates (map snd (ps_collect ex_ps_env ?d))),
                    last_item_ids = Some (recentIds 50 (items (fst (ps_run ex_ps_env ?d))))\<rparr>"
    by blast+
  moreover have "recentIds 100 (items (fst (as_run ex_env ?d))) = [''r1'', ''r2'']"
  proof -
    have "map (\<lambda>r. - rv_review_date r) (items (fst (as_run ex_env ?d)))
            = map uminus (map rv_review_date (items (fst (as_run ex_env ?d))))"
      by (simp add: comp_def)
    with i have "map (\<lambda>r. - rv_review_date r) (items (fst (as_run ex_env ?d))) = [- 300, - 250]"
      by simp
    then have "sorted (map (\<lambda>r. - rv_review_date r) (items (fst (as_run ex_env ?d))))"
      by simp
    then show ?thesis
      using i by (simp add: recentIds_def sort_key_id_if_sorted flip: take_map)
  qed
  moreover have "recentIds 50 (items (fst (ps_run ex_ps_env ?d))) = [''p2'', ''p1'']"
  proof -
    have "map (\<lambda>r. - rv_review_date r) (items (fst (ps_run ex_ps_env ?d)))
            = map uminus (map rv_review_date (items (fst (ps_run ex_ps_env ?d))))"
      by (simp add: comp_def)
    with pi have "map (\<lambda>r. - rv_review_date r) (items (fst (ps_run ex_ps_env ?d))) = [- 1000, - 400]"
      by simp
    then have "sorted (map (\<lambda>r. - rv_review_date r) (items (fst (ps_run ex_ps_env ?d))))"
      by simp
    then show ?thesis
      using pi by (simp add: recentIds_def sort_key_id_if_sorted flip: take_map)
  qed
  ultimately show ?thesis
    using i by (simp add: cfg pcol valid_dates_def max_date_def)
qed

subsection \<open>Relevance filter\<close>

lemma toLowerCase_idem [simp]: "toLowerCase (toLowerCase s) = toLowerCase s"
proof -
  have "\<And>c. (let n = (of_char c :: nat) in if 65 \<le> n \<and> n \<le> 90 then char_of (n + 32) else c) = c'
        \<Longrightarrow> (let n = (of_char c' :: nat) in if 65 \<le> n \<and> n \<le> 90 then char_of (n + 32) else c') = c'"
    for c'
    by (auto simp: Let_def split: if_splits)
  then show ?thesis
    by (simp add: toLowerCase_def)
qed

lemma combined_text_nonempty [simp]: "combined_text text1 text2 url \<noteq> []"
  by (simp add: combined_text_def toLowerCase_def)

lemma combined_text_lower [simp]: "toLowerCase (combined_text text1 text2 url) = combined_text text1 text2 url"
  by (simp add: combined_text_def)









subsection \<open>Sentiment scoring: the range of the score\<close>

text \<open>
  What \<open>analyzeSentiment\<close> returns as the score of a text that is not blank: 1 or -1
  when the analyzer's total score is beyond 5 in absolute value, and the analyzer's
  comparative score, rounded to three decimals, otherwise. Nothing clamps the
  comparative score.
\<close>

lemma analyzeSentiment_score:
  assumes "input = Some t" "trim t \<noteq> []" "analyze t = Inr r"
  shows "\<exists>res. analyzeSentiment analyze input = Inr res \<and>
           sr_score res = (if 5 < a_score r then 1 else if a_score r < - 5 then - 1
                           else toFixed3 (a_comparative r))"
  using assms by (auto simp: analyzeSentiment_def Let_def toFixed3_def trim_def)

text \<open>
  C9. The score is not always within \<open>[-1, 1]\<close>. The analyzer's comparative score is its
  total score divided by the number of tokens, so for a text of one token both are the
  valence of that token; the repository's lexicon (src/pipeline/lexicon.ts) gives
  \<open>goat\<close> the valence 4. On that result \<open>analyzeSentiment\<close> returns the score 4: the total
  is not beyond 5, so the comparative score is returned as it is. The function is
  deterministic: it is a function of the text and of the analyzer's result.
\<close>

theorem analyzeSentiment_score_out_of_range:
  "analyzeSentiment (\<lambda>t. Inr \<lparr>a_score = 4, a_comparative = 4, a_tokens = [''goat'']\<rparr>) (Some ''goat'')
     = Inr \<lparr>sr_score = 4, sr_label = positive, sr_confidence = 1\<rparr>"
  by (simp add: analyzeSentiment_def trim_def toFixed3_def isWhiteSpace_def Let_def)

subsection \<open>Deduplication\<close>

lemma addPost_duplicate:
  assumes "post_name p \<noteq> []" "post_name p \<in> seenIds s \<or> postKey p \<in> seenContent s"
  shows "addPost cfg (Some p) s = (Inr False, countDuplicate s)"
  using assms by (auto simp: addPost_def)

lemma addComment_duplicate:
  assumes "c_name c \<noteq> []" "c_name c \<in> seenIds s \<or> commentKey c \<in> seenContent s"
  shows "addComment cfg (Some c) s = (Inr False, countDuplicate s)"
  using assms by (auto simp: addComment_def)

lemma countDuplicate_fields:
  "buffer (countDuplicate s) = buffer s"
  "seenIds (countDuplicate s) = seenIds s"
  "seenContent (countDuplicate s) = seenContent s"
  "duplicatesSkipped (stats (countDuplicate s)) = Suc (duplicatesSkipped (stats s))"
  by (simp_all add: countDuplicate_def)

lemma transformPost_id: "transformPost t p = Inr m \<Longrightarrow> m_external_id m = post_name p"
  by (auto simp: transformPost_def Let_def split: sum.splits)

lemma transformComment_id: "transformComment t c = Inr m \<Longrightarrow> m_external_id m = c_name c"
  by (auto simp: transformComment_def Let_def split: sum.splits)

lemma addPost_accepted:
  assumes "addPost cfg (Some p) s = (Inr True, s')"
  shows "post_name p \<notin> seenIds s \<and> postKey p \<notin> seenContent s \<and>
         seenIds s' = insert (post_name p) (seenIds s) \<and>
         seenContent s' = insert (postKey p) (seenContent s) \<and>
         (\<exists>m. buffer s' = buffer s @ [m] \<and> m_external_id m = post_name p)"
  using assms
  by (auto simp: addPost_def Let_def countDuplicate_def countFiltered_def
      dest: transformPost_id split: if_splits sum.splits)

lemma addComment_accepted:
  assumes "addComment cfg (Some c) s = (Inr True, s')"
  shows "c_name c \<notin> seenIds s \<and> commentKey c \<notin> seenContent s \<and>
         seenIds s' = insert (c_name c) (seenIds s) \<and>
         seenContent s' = insert (commentKey c) (seenContent s) \<and>
         (\<exists>m. buffer s' = buffer s @ [m] \<and> m_external_id m = c_name c)"
  using assms
  by (auto simp: addComment_def Let_def countDuplicate_def countFiltered_def
      dest: transformComment_id split: if_splits sum.splits)

lemma apiReview_known:
  assumes "api_id r = Some rid" "rid \<noteq> []" "rid \<in> knownIds \<or> rid \<in> fst ` set allReviews"
  shows "fst (apiReview knownIds (allReviews, n, k) r) = allReviews"
  using assms by (auto simp: apiReview_def map_of_eq_None_iff)

lemma apiReview_new:
  assumes "api_id r = Some rid" "rid \<noteq> []" "rid \<notin> knownIds" "rid \<notin> fst ` set allReviews"
  shows "\<exists>d. fst (apiReview knownIds (allReviews, n, k) r) = allReviews @ [(rid, d)] \<and>
             pr_text d = or_else (api_text r) []"
  using assms by (auto simp: apiReview_def map_of_eq_None_iff)

lemma run_start_clears:
  "seenIds (snd (run_start s)) = {}" "seenContent (snd (run_start s)) = {}"
  "buffer (snd (run_start s)) = []"
  by (simp_all add: run_start_def Let_def split: prod.splits)

text \<open>
  C5 (as amended). Reddit: a post or comment with a name is rejected, counted in
  \<open>duplicatesSkipped\<close> and kept out of the buffer when its name is in \<open>seenIds\<close> or its
  content key is in \<open>seenContent\<close>, both sets untouched; an accepted one was in neither
  set, is appended to the buffer, and its name and content key are recorded. Both sets
  are empty after the start of a run, whatever the cursor and the database hold: no
  identifier of an earlier run is loaded. Play Store API: a review whose id is in
  \<open>knownIds\<close> (the identifiers loaded at the start of the run) or already collected in
  this run is not collected; any other review with an id is collected, whatever its
  text: no content key is kept.
\<close>

theorem dedup_ledger:
  "(post_name p \<noteq> [] \<and> (post_name p \<in> seenIds s \<or> postKey p \<in> seenContent s) \<longrightarrow>
      (\<exists>s'. addPost cfg (Some p) s = (Inr False, s') \<and> buffer s' = buffer s \<and>
            seenIds s' = seenIds s \<and> seenContent s' = seenContent s \<and>
            duplicatesSkipped (stats s') = Suc (duplicatesSkipped (stats s))))
   \<and> (addPost cfg (Some p) s = (Inr True, t) \<longrightarrow>
        post_name p \<notin> seenIds s \<and> postKey p \<notin> seenContent s \<and>
        seenIds t = insert (post_name p) (seenIds s) \<and>
        seenContent t = insert (postKey p) (seenContent s) \<and>
        (\<exists>m. buffer t = buffer s @ [m] \<and> m_external_id m = post_name p))
   \<and> (c_name c \<noteq> [] \<and> (c_name c \<in> seenIds s \<or> commentKey c \<in> seenContent s) \<longrightarrow>
        (\<exists>s'. addComment cfg (Some c) s = (Inr False, s') \<and> buffer s' = buffer s \<and>
              seenIds s' = seenIds s \<and> seenContent s' = seenContent s \<and>
              duplicatesSkipped (stats s') = Suc (duplicatesSkipped (stats s))))
   \<and> (addComment cfg (Some c) s = (Inr True, u) \<longrightarrow>
        c_name c \<notin> seenIds s \<and> commentKey c \<notin> seenContent s \<and>
        seenIds u = insert (c_name c) (seenIds s) \<and>
        seenContent u = insert (commentKey c) (seenContent s) \<and>
        (\<exists>m. buffer u = buffer s @ [m] \<and> m_external_id m = c_name c))
   \<and> seenIds (snd (run_start s0)) = {} \<and> seenContent (snd (run_start s0)) = {}
   \<and> (api_id r = Some rid \<and> rid \<noteq> [] \<longrightarrow>
        (if rid \<in> knownIds \<or> rid \<in> fst ` set allReviews
         then fst (apiReview knownIds (allReviews, n, k) r) = allReviews
         else \<exists>d. fst (apiReview knownIds (allReviews, n, k) r) = allReviews @ [(rid, d)] \<and>
                  pr_text d = or_else (api_text r) []))"
proof -
  have a: "post_name p \<noteq> [] \<and> (post_name p \<in> seenIds s \<or> postKey p \<in> seenContent s) \<longrightarrow>
      (\<exists>s'. addPost cfg (Some p) s = (Inr False, s') \<and> buffer s' = buffer s \<and>
            seenIds s' = seenIds s \<and> seenContent s' = seenContent s \<and>
            duplicatesSkipped (stats s') = Suc (duplicatesSkipped (stats s)))"
    using addPost_duplicate [of p s cfg] by (simp add: countDuplicate_fields)
  have b: "c_name c \<noteq> [] \<and> (c_name c \<in> seenIds s \<or> commentKey c \<in> seenContent s) \<longrightarrow>
        (\<exists>s'. addComment cfg (Some c) s = (Inr False, s') \<and> buffer s' = buffer s \<and>
              seenIds s' = seenIds s \<and> seenContent s' = seenContent s \<and>
              duplicatesSkipped (stats s') = Suc (duplicatesSkipped (stats s)))"
    using addComment_duplicate [of c s cfg] by (simp add: countDuplicate_fields)
  have e: "api_id r = Some rid \<and> rid \<noteq> [] \<longrightarrow>
        (if rid \<in> knownIds \<or> rid \<in> fst ` set allReviews
         then fst (apiReview knownIds (allReviews, n, k) r) = allReviews
         else \<exists>d. fst (apiReview knownIds (allReviews, n, k) r) = allReviews @ [(rid, d)] \<and>
                  pr_text d = or_else (api_text r) [])"
    using apiReview_known [of r rid knownIds allReviews n k]
      apiReview_new [of r rid knownIds allReviews n k]
    by (simp del: fst_conv split: if_splits)
  show ?thesis
    using a b e addPost_accepted [of cfg p s t] addComment_accepted [of cfg c s u]
      run_start_clears(1,2) [of s0]
    by blast
qed

lemma brand_sub: "toLowerCase ''matiks'' \<in> set (brandSubredditSet default_config)"
  by code_simp

lemma isRelevant_brand_sub: "isRelevant default_config t1 t2 ''matiks'' url"
  using brand_sub by (simp add: isRelevant_def Let_def)

lemma ex_post_fields:
  "post_name (ex_post name title created) = name"
  "post_title (ex_post name title created) = title"
  "post_author (ex_post name title created) = ''alice''"
  "post_subreddit (ex_post name title created) = ''matiks''"
  "post_selftext (ex_post name title created) = []"
  "post_created_utc (ex_post name title created) = created"
  "post_preview (ex_post name title created) = None"
  by (simp_all add: ex_post_def)

lemma addPost_fresh:
  assumes "name \<noteq> []" "name \<notin> seenIds s" "postKey (ex_post name title created) \<notin> seenContent s"
    "created \<noteq> 0" "\<bar>created * 1000\<bar> \<le> 8640000000000000"
  shows "fst (addPost default_config (Some (ex_post name title created)) s) = Inr True"
    and "map m_external_id (buffer (snd (addPost default_config (Some (ex_post name title created)) s)))
           = map m_external_id (buffer s) @ [name]"
    and "stats (snd (addPost default_config (Some (ex_post name title created)) s))
           = (stats s)\<lparr>postsFound := postsFound (stats s) + 1\<rparr>"
  using assms
  by (simp_all add: addPost_def ex_post_fields isRelevant_brand_sub Let_def transformPost_def
      created_at_of_def toISOString_def)

lemma run_start_stats:
  "stats (snd (run_start s)) = \<lparr>apiCalls = 0, rateLimitHits = 0, postsFound = 0, commentsFound = 0,
                      duplicatesSkipped = 0, filteredOut = 0, saved = 0\<rparr>"
  by (simp add: run_start_def Let_def split: prod.splits)

text \<open>
  C5, the claim as stated fails. The post \<open>t3_abc\<close> is among the recent identifiers of
  the database and in the cursor's identifier list, and the first \<open>addPost\<close> of the next
  run accepts it into the buffer, with no duplicate counted. Two Play Store reviews with
  the same text and author and different ids are both collected.
\<close>

theorem persisted_id_accepted_counterexample:
  "''t3_abc'' \<in> set (getRecentExternalIds ''reddit'' 1000 ex_rdb)
   \<and> map_option last_item_ids (getScrapeCursor ''reddit'' ex_rdb) = Some (Some [''t3_abc''])
   \<and> fst (addPost default_config (Some (ex_post ''t3_abc'' ''Matiks daily challenge'' 1700000000))
            (snd (run_start (ex_rstate 1700000200000 ex_rdb)))) = Inr True
   \<and> map m_external_id
        (buffer (snd (addPost default_config (Some (ex_post ''t3_abc'' ''Matiks daily challenge'' 1700000000))
                        (snd (run_start (ex_rstate 1700000200000 ex_rdb)))))) = [''t3_abc'']
   \<and> duplicatesSkipped
        (stats (snd (addPost default_config (Some (ex_post ''t3_abc'' ''Matiks daily challenge'' 1700000000))
                       (snd (run_start (ex_rstate 1700000200000 ex_rdb)))))) = 0
   \<and> map (\<lambda>kv. (fst kv, pr_text (snd kv)))
        (fst (foldl (apiReview {}) ([], 0, 0) [ex_api_review ''p1'', ex_api_review ''p2'']))
       = [(''p1'', ''fine''), (''p2'', ''fine'')]"
proof -
  have 1: "''t3_abc'' \<in> set (getRecentExternalIds ''reddit'' 1000 ex_rdb)"
    by (simp add: getRecentExternalIds_def PLATFORMS_def ex_rdb_def)
  have 2: "map_option last_item_ids (getScrapeCursor ''reddit'' ex_rdb) = Some (Some [''t3_abc''])"
    by (simp add: getScrapeCursor_def ex_rdb_def)
  have 3: "map (\<lambda>kv. (fst kv, pr_text (snd kv)))
        (fst (foldl (apiReview {}) ([], 0, 0) [ex_api_review ''p1'', ex_api_review ''p2'']))
       = [(''p1'', ''fine''), (''p2'', ''fine'')]"
    by (simp add: apiReview_def ex_api_review_def or_else_def)
  show ?thesis
    using 1 2 3
    by (simp add: addPost_fresh run_start_clears run_start_stats)
qed

text \<open>
  The theorem at work: a post with a new name and a seen content key (the title differs
  in case only) is counted as a duplicate and not buffered; an accepted post leaves its
  name and its content key in the sets; a Play Store review with a known id is not
  collected.
\<close>

theorem dedup_ledger_witness:
  "(\<exists>s'. addPost default_config (Some (ex_post ''t3_xyz'' ''MATIKS daily challenge'' 1700000050))
            ((ex_rstate 1700000200000 ex_rdb)
               \<lparr>seenIds := {''t3_abc''}, seenContent := {''matiks daily challenge|alice''}\<rparr>)
          = (Inr False, s') \<and> buffer s' = [] \<and> duplicatesSkipped (stats s') = 1)
   \<and> seenIds (snd (addPost default_config (Some (ex_post ''t3_abc'' ''Matiks daily challenge'' 1700000000))
                     (ex_rstate 1700000200000 ex_rdb))) = {''t3_abc''}
   \<and> seenContent (snd (addPost default_config (Some (ex_post ''t3_abc'' ''Matiks daily challenge'' 1700000000))
                     (ex_rstate 1700000200000 ex_rdb))) = {''matiks daily challenge|alice''}
   \<and> fst (apiReview {''p1''} ([], 0, 0) (ex_api_review ''p1'')) = []"
proof -
  let ?seen = "(ex_rstate 1700000200000 ex_rdb)
               \<lparr>seenIds := {''t3_abc''}, seenContent := {''matiks daily challenge|alice''}\<rparr>"
  let ?p = "ex_post ''t3_xyz'' ''MATIKS daily challenge'' 1700000050"
  let ?q = "ex_post ''t3_abc'' ''Matiks daily challenge'' 1700000000"
  let ?init = "ex_rstate 1700000200000 ex_rdb"
  have k: "postKey ?p = ''matiks daily challenge|alice''" "postKey ?q = ''matiks daily challenge|alice''"
    by code_simp+
  have acc: "addPost default_config (Some ?q) ?init = (Inr True, snd (addPost default_config (Some ?q) ?init))"
    using addPost_fresh(1) [of "''t3_abc''" ?init "''Matiks daily challenge''" 1700000000]
    by (simp add: k ex_rstate_def prod_eq_iff)
  from dedup_ledger [where p = ?p and s = ?seen and cfg = default_config and r = "ex_api_review ''p1''"
      and rid = "''p1''" and knownIds = "{''p1''}" and allReviews = "[]" and n = 0 and k = 0]
  have "\<exists>s'. addPost default_config (Some ?p) ?seen = (Inr False, s') \<and> buffer s' = buffer ?seen \<and>
            seenIds s' = seenIds ?seen \<and> seenContent s' = seenContent ?seen \<and>
            duplicatesSkipped (stats s') = Suc (duplicatesSkipped (stats ?seen))"
    and "fst (apiReview {''p1''} ([], 0, 0) (ex_api_review ''p1'')) = []"
    by (simp_all add: k ex_post_fields ex_api_review_def)
  moreover from dedup_ledger [where p = ?q and s = ?init and cfg = default_config
      and t = "snd (addPost default_config (Some ?q) ?init)"] acc
  have "seenIds (snd (addPost default_config (Some ?q) ?init)) = {''t3_abc''}"
    "seenContent (snd (addPost default_config (Some ?q) ?init)) = {''matiks daily challenge|alice''}"
    by (simp_all add: k ex_post_fields ex_rstate_def)
  ultimately show ?thesis
    by (auto simp: ex_rstate_def)
qed

subsection \<open>Reddit run: deadline and failures of the phases\<close>






























subsection \<open>Reddit run: the fatal error handler\<close>








































end
